theory Spec2Isabelle
  imports Complex_Main
begin

section \<open>Values exchanged with the browser driver\<close>

text \<open>
  The bot (\<^verbatim>\<open>src/MapMod/main.py\<close>, class \<^verbatim>\<open>GoogleMapsEditBot\<close>) talks to a browser
  through Playwright. A driver call either returns a value or raises an \<^verbatim>\<open>Exception\<close>;
  the source wraps almost every call in \<^verbatim>\<open>try/except\<close>, so both results are values of
  the model. (\<^verbatim>\<open>BaseException\<close>s such as a cancelled coroutine are outside the model.)
\<close>

datatype 'a outcome = Raises | Returns 'a

text \<open>
  What \<^verbatim>\<open>frame.evaluate(js)\<close> hands back to Python: JSON-like data. Numbers are exact
  rationals here; floating-point rounding is not modelled.
\<close>

datatype pyval =
    PNone
  | PBool bool
  | PNum rat
  | PStr string
  | PList "pyval list"
  | PDict "(string \<times> pyval) list"

text \<open>Python truthiness, as used by \<^verbatim>\<open>if result:\<close>.\<close>

fun truthy :: "pyval \<Rightarrow> bool" where
  "truthy PNone = False"
| "truthy (PBool b) = b"
| "truthy (PNum n) = (n \<noteq> 0)"
| "truthy (PStr s) = (s \<noteq> [])"
| "truthy (PList xs) = (xs \<noteq> [])"
| "truthy (PDict kvs) = (kvs \<noteq> [])"

text \<open>
  \<^verbatim>\<open>v[key]\<close>: a dictionary yields the entry or raises \<^verbatim>\<open>KeyError\<close>; \<^verbatim>\<open>None\<close> and the
  other non-subscriptable values raise \<^verbatim>\<open>TypeError\<close> (a string key on a list or a
  string raises \<^verbatim>\<open>TypeError\<close> as well).
\<close>

fun subscript :: "pyval \<Rightarrow> string \<Rightarrow> pyval outcome" where
  "subscript (PDict kvs) key = (case map_of kvs key of None \<Rightarrow> Raises | Some v \<Rightarrow> Returns v)"
| "subscript v key = Raises"

text \<open>A coordinate handed to \<^verbatim>\<open>mouse.click\<close> has to be a number.\<close>

fun as_number :: "pyval outcome \<Rightarrow> rat outcome" where
  "as_number (Returns (PNum n)) = Returns n"
| "as_number v = Raises"

section \<open>Strings\<close>

text \<open>
  Texts are modelled over ASCII: case mapping touches the letters A to Z only, and
  whitespace is the ASCII whitespace of the respective language.
\<close>

definition to_lower_char :: "char \<Rightarrow> char" where
  "to_lower_char c =
     (case map_of (zip ''ABCDEFGHIJKLMNOPQRSTUVWXYZ'' ''abcdefghijklmnopqrstuvwxyz'') c of
        None \<Rightarrow> c
      | Some d \<Rightarrow> d)"

definition to_upper_char :: "char \<Rightarrow> char" where
  "to_upper_char c =
     (case map_of (zip ''abcdefghijklmnopqrstuvwxyz'' ''ABCDEFGHIJKLMNOPQRSTUVWXYZ'') c of
        None \<Rightarrow> c
      | Some d \<Rightarrow> d)"

definition lower :: "string \<Rightarrow> string" where
  "lower s = map to_lower_char s"

definition upper :: "string \<Rightarrow> string" where
  "upper s = map to_upper_char s"

text \<open>JavaScript \<^verbatim>\<open>trim()\<close>: tab, line feed, vertical tab, form feed, carriage return, space.\<close>

definition js_space :: "char \<Rightarrow> bool" where
  "js_space c = (c \<in> set [CHR 0x09, CHR 0x0A, CHR 0x0B, CHR 0x0C, CHR 0x0D, CHR 0x20])"

definition js_trim :: "string \<Rightarrow> string" where
  "js_trim s = rev (dropWhile js_space (rev (dropWhile js_space s)))"

text \<open>Python \<^verbatim>\<open>str.isspace\<close> on ASCII adds the separators 0x1C to 0x1F.\<close>

definition py_isspace :: "char \<Rightarrow> bool" where
  "py_isspace c =
     (c \<in> set [CHR 0x09, CHR 0x0A, CHR 0x0B, CHR 0x0C, CHR 0x0D, CHR 0x20,
               CHR 0x1C, CHR 0x1D, CHR 0x1E, CHR 0x1F])"

definition py_strip :: "string \<Rightarrow> string" where
  "py_strip s = rev (dropWhile py_isspace (rev (dropWhile py_isspace s)))"

text \<open>Python \<^verbatim>\<open>str.isprintable\<close> on ASCII: the codes 0x20 to 0x7E.\<close>

definition py_isprintable :: "char \<Rightarrow> bool" where
  "py_isprintable c = (32 \<le> (of_char c :: nat) \<and> (of_char c :: nat) \<le> 126)"

text \<open>\<^verbatim>\<open>s.includes(sub)\<close> in JavaScript, \<^verbatim>\<open>sub in s\<close> in Python.\<close>

fun str_includes :: "string \<Rightarrow> string \<Rightarrow> bool" where
  "str_includes [] sub = (sub = [])"
| "str_includes (c # cs) sub = (take (length sub) (c # cs) = sub \<or> str_includes cs sub)"

section \<open>Documents and frames\<close>

text \<open>
  The part of a document that the injected scripts read. \<^verbatim>\<open>query_selector_all\<close> lists
  the matches of a selector in document order and raises where the browser rejects the
  selector string; \<^verbatim>\<open>ancestors\<close> lists a node's ancestors, nearest first.
\<close>

type_synonym node = nat
type_synonym selector = string

record rect =
  rect_x :: rat
  rect_y :: rat
  rect_width :: rat
  rect_height :: rat

record dom =
  query_selector_all :: "selector \<Rightarrow> node list outcome"
  query_within :: "node \<Rightarrow> selector \<Rightarrow> node list"
  node_matches :: "node \<Rightarrow> selector \<Rightarrow> bool"
  ancestors :: "node \<Rightarrow> node list"
  bounding_rect :: "node \<Rightarrow> rect"
  inner_text :: "node \<Rightarrow> string"
  text_content :: "node \<Rightarrow> string"
  property :: "node \<Rightarrow> string \<Rightarrow> string"
  get_attribute :: "node \<Rightarrow> string \<Rightarrow> string option"

text \<open>\<^verbatim>\<open>document.querySelector(sel)\<close>: the first match in document order, or null.\<close>

definition query_selector :: "dom \<Rightarrow> selector \<Rightarrow> node option outcome" where
  "query_selector d sel =
     (case query_selector_all d sel of
        Raises \<Rightarrow> Raises
      | Returns [] \<Rightarrow> Returns None
      | Returns (n # ns) \<Rightarrow> Returns (Some n))"

text \<open>\<^verbatim>\<open>el.closest(sel)\<close>: the element itself or its nearest ancestor matching \<^verbatim>\<open>sel\<close>.\<close>

definition closest :: "dom \<Rightarrow> node \<Rightarrow> selector \<Rightarrow> node option" where
  "closest d n sel = find (\<lambda>a. node_matches d a sel) (n # ancestors d n)"

text \<open>\<^verbatim>\<open>rect.width > 0 && rect.height > 0\<close>.\<close>

definition is_visible :: "rect \<Rightarrow> bool" where
  "is_visible r = (rect_width r > 0 \<and> rect_height r > 0)"

definition center_x :: "rect \<Rightarrow> rat" where
  "center_x r = rect_x r + rect_width r / 2"

definition center_y :: "rect \<Rightarrow> rat" where
  "center_y r = rect_y r + rect_height r / 2"

text \<open>\<^verbatim>\<open>a || b\<close> on strings, and \<^verbatim>\<open>el.getAttribute(name) || ''\<close>.\<close>

definition str_or :: "string \<Rightarrow> string \<Rightarrow> string" where
  "str_or a b = (if a \<noteq> [] then a else b)"

definition attr_or_empty :: "dom \<Rightarrow> node \<Rightarrow> string \<Rightarrow> string" where
  "attr_or_empty d n name = (case get_attribute d n name of None \<Rightarrow> [] | Some v \<Rightarrow> v)"

text \<open>\<^verbatim>\<open>(btn.innerText || btn.textContent || '').trim().toLowerCase()\<close>.\<close>

definition node_text :: "dom \<Rightarrow> node \<Rightarrow> string" where
  "node_text d n = lower (js_trim (str_or (inner_text d n) (text_content d n)))"

text \<open>
  A page: its main frame, \<^verbatim>\<open>page.frames\<close> in registration order, and what each frame
  currently shows. A frame whose evaluation is refused (cross-origin, detached during a
  navigation) has no document to offer: \<^verbatim>\<open>frame.evaluate\<close> raises.
\<close>

type_synonym frame = nat

record page =
  main_frame :: frame
  frames :: "frame list"
  document :: "frame \<Rightarrow> dom outcome"

text \<open>A script is its meaning on a document; \<^verbatim>\<open>frame.evaluate(js)\<close> runs it there.\<close>

type_synonym script = "dom \<Rightarrow> pyval outcome"

definition frame_evaluate :: "page \<Rightarrow> frame \<Rightarrow> (dom \<Rightarrow> 'a outcome) \<Rightarrow> 'a outcome" where
  "frame_evaluate pg fr js = (case document pg fr of Raises \<Rightarrow> Raises | Returns d \<Rightarrow> js d)"

section \<open>The frame evaluator: \<^verbatim>\<open>_evaluate_in_all_frames\<close>\<close>

text \<open>
  The \<^verbatim>\<open>for frame in self.page.frames\<close> loop: the main frame is skipped, a frame that
  raises is skipped, the first truthy result is returned with its frame.
\<close>

fun child_frames_loop :: "page \<Rightarrow> script \<Rightarrow> frame list \<Rightarrow> pyval \<times> frame option" where
  "child_frames_loop pg js [] = (PNone, None)"
| "child_frames_loop pg js (fr # rest) =
     (if fr = main_frame pg then child_frames_loop pg js rest
      else case frame_evaluate pg fr js of
             Raises \<Rightarrow> child_frames_loop pg js rest
           | Returns result \<Rightarrow>
               if truthy result then (result, Some fr) else child_frames_loop pg js rest)"

definition evaluate_in_all_frames :: "page \<Rightarrow> script \<Rightarrow> pyval \<times> frame option" where
  "evaluate_in_all_frames pg js =
     (case frame_evaluate pg (main_frame pg) js of
        Raises \<Rightarrow> child_frames_loop pg js (frames pg)
      | Returns result \<Rightarrow>
          if truthy result then (result, Some (main_frame pg))
          else child_frames_loop pg js (frames pg))"

text \<open>
  The order in which the frames are asked: the main frame, then the frames of
  \<^verbatim>\<open>page.frames\<close> other than the main frame. A frame yields a result when its
  evaluation returns a truthy value; a frame that raises yields none.
\<close>

definition visit_order :: "page \<Rightarrow> frame list" where
  "visit_order pg = main_frame pg # filter (\<lambda>fr. fr \<noteq> main_frame pg) (frames pg)"

definition yields :: "page \<Rightarrow> script \<Rightarrow> frame \<Rightarrow> bool" where
  "yields pg js fr = (case frame_evaluate pg fr js of Raises \<Rightarrow> False | Returns r \<Rightarrow> truthy r)"

section \<open>The coordinate click dispatcher\<close>

text \<open>The settings of the bot object that the modelled methods read.\<close>

record bot =
  click_delay :: rat
  panel_wait_seconds :: int
  post_ok_click :: bool
  place_name_selectors :: "selector list"
  submit_selectors :: "selector list"

text \<open>
  The suppression flag \<^verbatim>\<open>window.__botClicking\<close>, one per frame window. The frame tree
  says which window is \<^verbatim>\<open>window.parent\<close> of a frame (\<^verbatim>\<open>window.top\<close> is the main
  frame's window) and whether a script of one frame may write to another frame's window;
  a refused write throws inside the script and is caught there.
\<close>

type_synonym flags = "frame \<Rightarrow> bool"

record frame_tree =
  parent_frame :: "frame \<Rightarrow> frame"
  writable :: "frame \<Rightarrow> frame \<Rightarrow> bool"

text \<open>
  The script of \<^verbatim>\<open>_set_bot_clicking_for_all_frames\<close>, run in frame \<^verbatim>\<open>fr\<close>:
  \<^verbatim>\<open>window.__botClicking = v; try{ window.top.__botClicking = v }catch(e){};
  try{ window.parent.__botClicking = v }catch(e){}\<close>.
\<close>

definition flag_script :: "page \<Rightarrow> frame_tree \<Rightarrow> bool \<Rightarrow> frame \<Rightarrow> flags \<Rightarrow> flags" where
  "flag_script pg tr v fr st =
     (let s1 = st(fr := v);
          s2 = (if writable tr fr (main_frame pg) then s1(main_frame pg := v) else s1);
          s3 = (if writable tr fr (parent_frame tr fr) then s2(parent_frame tr fr := v) else s2)
      in s3)"

text \<open>\<^verbatim>\<open>try: await fr.evaluate(js) / except Exception: continue\<close>.\<close>

definition set_flag_in_frame :: "page \<Rightarrow> frame_tree \<Rightarrow> bool \<Rightarrow> flags \<Rightarrow> frame \<Rightarrow> flags" where
  "set_flag_in_frame pg tr v st fr =
     (case document pg fr of Raises \<Rightarrow> st | Returns d \<Rightarrow> flag_script pg tr v fr st)"

text \<open>First \<^verbatim>\<open>self.page.evaluate(js)\<close> (the main frame), then every frame of \<^verbatim>\<open>page.frames\<close>.\<close>

definition set_bot_clicking_for_all_frames :: "page \<Rightarrow> frame_tree \<Rightarrow> bool \<Rightarrow> flags \<Rightarrow> flags" where
  "set_bot_clicking_for_all_frames pg tr v st =
     foldl (set_flag_in_frame pg tr v) (set_flag_in_frame pg tr v st (main_frame pg)) (frames pg)"

text \<open>
  One run of \<^verbatim>\<open>_click_xy_in_frame\<close>, observed at three moments: the flag store while
  \<^verbatim>\<open>mouse.click\<close> is dispatched, the store while \<^verbatim>\<open>asyncio.sleep(self.click_delay)\<close>
  runs (none when the method does not sleep), and the store when the method is left.
  \<^verbatim>\<open>click_raised\<close> says that the method is left by the exception of \<^verbatim>\<open>mouse.click\<close>.
\<close>

record click_run =
  flags_at_click :: flags
  flags_at_delay :: "flags option"
  flags_after :: flags
  click_raised :: bool

text \<open>
  \<^verbatim>\<open>pg\<close> is the page when the method is entered, \<^verbatim>\<open>click_ok\<close> whether \<^verbatim>\<open>mouse.click\<close>
  returns, \<^verbatim>\<open>pg'\<close> the page after the click attempt (a click may attach or detach frames).
  The \<^verbatim>\<open>finally\<close> block clears the flag on both ways out of the \<^verbatim>\<open>try\<close>; the delay follows
  the \<^verbatim>\<open>try\<close> statement, so it is reached only when the click returned.
\<close>

definition click_xy_in_frame ::
  "bot \<Rightarrow> frame_tree \<Rightarrow> page \<Rightarrow> bool \<Rightarrow> page \<Rightarrow> flags \<Rightarrow> click_run" where
  "click_xy_in_frame b tr pg click_ok pg' st =
     (let st1 = set_bot_clicking_for_all_frames pg tr True st;
          st2 = set_bot_clicking_for_all_frames pg' tr False st1
      in \<lparr>flags_at_click = st1,
          flags_at_delay =
            (if click_ok \<and> click_delay b \<noteq> 0 \<and> click_delay b > 0 then Some st2 else None),
          flags_after = st2,
          click_raised = (\<not> click_ok)\<rparr>)"

text \<open>The flag of one frame during the delay, when there is a delay.\<close>

definition delay_flag :: "click_run \<Rightarrow> frame \<Rightarrow> bool option" where
  "delay_flag run fr = map_option (\<lambda>st. st fr) (flags_at_delay run)"

section \<open>Concrete documents and pages\<close>

text \<open>
  An empty document, and pages built from it, for evaluating the model. As in a browser,
  \<^verbatim>\<open>querySelectorAll\<close> rejects the selectors written with Playwright's \<^verbatim>\<open>:has-text(...)\<close>.
\<close>

definition blank_dom :: dom where
  "blank_dom =
     \<lparr>query_selector_all = (\<lambda>sel. if str_includes sel '':has-text('' then Raises else Returns []),
      query_within = (\<lambda>n sel. []),
      node_matches = (\<lambda>n sel. False),
      ancestors = (\<lambda>n. []),
      bounding_rect = (\<lambda>n. \<lparr>rect_x = 0, rect_y = 0, rect_width = 0, rect_height = 0\<rparr>),
      inner_text = (\<lambda>n. []),
      text_content = (\<lambda>n. []),
      property = (\<lambda>n name. []),
      get_attribute = (\<lambda>n name. None)\<rparr>"

text \<open>A script that reports the title text of node 0, or null when it has none.\<close>

definition title_script :: script where
  "title_script d = Returns (if inner_text d 0 = [] then PNone else PStr (inner_text d 0))"

definition titled_dom :: "string \<Rightarrow> dom" where
  "titled_dom t = blank_dom\<lparr>inner_text := (\<lambda>n. if n = 0 then t else [])\<rparr>"

text \<open>Main frame 0 and a child frame 2 both have a title; frame 1 refuses evaluation.\<close>

definition page_main_titled :: page where
  "page_main_titled =
     \<lparr>main_frame = 0, frames = [0, 1, 2],
      document = (\<lambda>fr. if fr = 0 then Returns (titled_dom ''Main'')
                       else if fr = 1 then Raises else Returns (titled_dom ''Child''))\<rparr>"

text \<open>No frame has a title; frame 1 refuses evaluation.\<close>

definition page_untitled :: page where
  "page_untitled =
     \<lparr>main_frame = 0, frames = [0, 1, 2],
      document = (\<lambda>fr. if fr = 1 then Raises else Returns blank_dom)\<rparr>"

text \<open>The bot as \<^verbatim>\<open>__init__\<close> sets it up.\<close>

definition default_bot :: bot where
  \<open>default_bot =
     \<lparr>click_delay = 1 / 2,
      panel_wait_seconds = 3,
      post_ok_click = True,
      place_name_selectors =
        [''input#i7'',
         ''input[jsname="YPqjbf"]'',
         ''input[aria-label="Place name in English"]'',
         ''input[placeholder="Add place name in English"]'',
         ''input.VfPpkd-fmcmS-wGMbrd'',
         ''input[type="text"][aria-label*="Place name" i]'',
         ''input[placeholder*="place name" i]''],
      submit_selectors =
        [''span[jsname="V67aGc"]'',
         ''span.VfPpkd-vQzf8d'',
         ''div.VfPpkd-RLmnJb'',
         ''span:has-text("Submit")'',
         ''button:has-text("Submit")'',
         ''button:has-text("Send")'',
         ''[role="button"]:has-text("Submit")'',
         ''*[aria-label*="Submit" i]'',
         ''*[aria-label*="Send" i]'']\<rparr>\<close>

text \<open>Every frame is a child of frame 0, and all frames share one origin.\<close>

definition flat_tree :: frame_tree where
  "flat_tree = \<lparr>parent_frame = (\<lambda>fr. 0), writable = (\<lambda>a b. True)\<rparr>"

definition no_flags :: flags where
  "no_flags fr = False"

text \<open>
  The main frame has no title, frame 1 refuses evaluation, frame 2 returns an empty
  title, frames 3 and 4 have titles.
\<close>

definition page_child_titled :: page where
  "page_child_titled =
     \<lparr>main_frame = 0, frames = [0, 1, 2, 3, 4],
      document = (\<lambda>fr. if fr = 1 then Raises
                       else if fr = 3 then Returns (titled_dom ''Third'')
                       else if fr = 4 then Returns (titled_dom ''Fourth'')
                       else Returns blank_dom)\<rparr>"

section \<open>The scripts of \<^verbatim>\<open>submit_name_change\<close>\<close>

subsection \<open>Finding the place-name input\<close>

text \<open>The object returned for an input found through a captured selector.\<close>

definition captured_hit :: "dom \<Rightarrow> node \<Rightarrow> pyval" where
  "captured_hit d input =
     PDict [(''x'', PNum (center_x (bounding_rect d input))),
            (''y'', PNum (center_y (bounding_rect d input))),
            (''placeholder'', PStr (property d input ''placeholder'')),
            (''ariaLabel'', PStr (attr_or_empty d input ''aria-label'')),
            (''tag'', PStr (property d input ''tagName'')),
            (''className'', PStr (property d input ''className'')),
            (''id'', PStr (property d input ''id'')),
            (''jsname'', PStr (attr_or_empty d input ''jsname'')),
            (''foundBy'', PStr ''captured-selectors'')]"

text \<open>The object returned for an input found next to a "place name" label.\<close>

definition label_hit :: "dom \<Rightarrow> node \<Rightarrow> pyval" where
  "label_hit d input =
     PDict [(''x'', PNum (center_x (bounding_rect d input))),
            (''y'', PNum (center_y (bounding_rect d input))),
            (''placeholder'', PStr (property d input ''placeholder'')),
            (''ariaLabel'', PStr (attr_or_empty d input ''aria-label'')),
            (''tag'', PStr (property d input ''tagName'')),
            (''className'', PStr (property d input ''className'')),
            (''foundBy'', PStr ''label-proximity'')]"

text \<open>
  \<^verbatim>\<open>for (let selector of selectors) { const input = document.querySelector(selector);
  if (input) { ... if (isVisible) return {...} } }\<close>: only the first match of each selector
  is looked at. \<^verbatim>\<open>Returns None\<close> says that the loop ended without a \<^verbatim>\<open>return\<close>.
\<close>

fun place_name_selector_loop :: "dom \<Rightarrow> selector list \<Rightarrow> pyval option outcome" where
  "place_name_selector_loop d [] = Returns None"
| "place_name_selector_loop d (sel # rest) =
     (case query_selector d sel of
        Raises \<Rightarrow> Raises
      | Returns None \<Rightarrow> place_name_selector_loop d rest
      | Returns (Some input) \<Rightarrow>
          if is_visible (bounding_rect d input) then Returns (Some (captured_hit d input))
          else place_name_selector_loop d rest)"

text \<open>
  \<^verbatim>\<open>for (let lab of labels) { const container = lab.closest('div, form, section');
  if (!container) continue; const input = container.querySelector('input, textarea,
  [contenteditable]'); if (input) { ... if (isVisible) return {...} } } return null\<close>.
\<close>

fun label_loop :: "dom \<Rightarrow> node list \<Rightarrow> pyval" where
  "label_loop d [] = PNone"
| "label_loop d (lab # rest) =
     (case closest d lab ''div, form, section'' of
        None \<Rightarrow> label_loop d rest
      | Some container \<Rightarrow>
          (case query_within d container ''input, textarea, [contenteditable]'' of
             [] \<Rightarrow> label_loop d rest
           | input # others \<Rightarrow>
               if is_visible (bounding_rect d input) then label_hit d input
               else label_loop d rest))"

text \<open>The script evaluated in each polling attempt (source lines 888 to 935).\<close>

definition find_place_name_input :: "selector list \<Rightarrow> script" where
  "find_place_name_input selectors d =
     (case place_name_selector_loop d selectors of
        Raises \<Rightarrow> Raises
      | Returns (Some hit) \<Rightarrow> Returns hit
      | Returns None \<Rightarrow>
          (case query_selector_all d ''span, label'' of
             Raises \<Rightarrow> Raises
           | Returns ns \<Rightarrow>
               Returns (label_loop d
                 (filter (\<lambda>n. str_includes (lower (inner_text d n)) ''place name'') ns))))"

subsection \<open>Finding the submit control\<close>

text \<open>\<^verbatim>\<open>isVisible && text === 'submit'\<close>: the node's own centre is returned.\<close>

definition exact_hit :: "dom \<Rightarrow> node \<Rightarrow> pyval" where
  "exact_hit d btn =
     PDict [(''x'', PNum (center_x (bounding_rect d btn))),
            (''y'', PNum (center_y (bounding_rect d btn))),
            (''text'', PStr (node_text d btn)),
            (''className'', PStr (property d btn ''className'')),
            (''jsname'', PStr (attr_or_empty d btn ''jsname'')),
            (''clickedVia'', PStr ''exact-match'')]"

text \<open>
  \<^verbatim>\<open>const clickable = btn.closest('button, [role="button"], div[role], div');
  const r = (clickable ? clickable.getBoundingClientRect() : rect)\<close>.
\<close>

definition clickable_rect :: "dom \<Rightarrow> node \<Rightarrow> rect" where
  \<open>clickable_rect d btn =
     (case closest d btn ''button, [role="button"], div[role], div'' of
        None \<Rightarrow> bounding_rect d btn
      | Some clickable \<Rightarrow> bounding_rect d clickable)\<close>

definition ancestor_hit :: "dom \<Rightarrow> node \<Rightarrow> pyval" where
  "ancestor_hit d btn =
     PDict [(''x'', PNum (center_x (clickable_rect d btn))),
            (''y'', PNum (center_y (clickable_rect d btn))),
            (''text'', PStr (node_text d btn)),
            (''clickedVia'', PStr ''ancestor''),
            (''className'', PStr (property d btn ''className''))]"

text \<open>\<^verbatim>\<open>text.includes('submit') || text.includes('send')\<close>.\<close>

definition submit_like :: "string \<Rightarrow> bool" where
  "submit_like text = (str_includes text ''submit'' \<or> str_includes text ''send'')"

text \<open>\<^verbatim>\<open>for (let btn of nodes) { ... }\<close>; \<^verbatim>\<open>None\<close> says that no node made the script return.\<close>

fun submit_nodes_loop :: "dom \<Rightarrow> node list \<Rightarrow> pyval option" where
  "submit_nodes_loop d [] = None"
| "submit_nodes_loop d (btn # rest) =
     (if is_visible (bounding_rect d btn) \<and> node_text d btn = ''submit''
      then Some (exact_hit d btn)
      else if is_visible (bounding_rect d btn) \<and> submit_like (node_text d btn)
      then Some (ancestor_hit d btn)
      else submit_nodes_loop d rest)"

text \<open>
  \<^verbatim>\<open>for (let selector of selectors) { const nodes = document.querySelectorAll(selector);
  ... } return null\<close> (source lines 975 to 1014). The loop has no \<^verbatim>\<open>try\<close>: a selector that
  the browser rejects ends the script with an exception.
\<close>

fun find_submit_button :: "selector list \<Rightarrow> script" where
  "find_submit_button [] d = Returns PNone"
| "find_submit_button (sel # rest) d =
     (case query_selector_all d sel of
        Raises \<Rightarrow> Raises
      | Returns nodes \<Rightarrow>
          (case submit_nodes_loop d nodes of
             Some hit \<Rightarrow> Returns hit
           | None \<Rightarrow> find_submit_button rest d))"

subsection \<open>Which candidate a cascade accepts\<close>

text \<open>
  The place-name loop passes over a selector that matches nothing or whose first match
  in document order is not visible.
\<close>

definition first_match_hidden :: "dom \<Rightarrow> selector \<Rightarrow> bool" where
  "first_match_hidden d sel =
     (case query_selector_all d sel of
        Raises \<Rightarrow> False
      | Returns [] \<Rightarrow> True
      | Returns (n # ns) \<Rightarrow> \<not> is_visible (bounding_rect d n))"

text \<open>A node that makes the submit script return, and the object returned for it.\<close>

definition submit_candidate :: "dom \<Rightarrow> node \<Rightarrow> bool" where
  "submit_candidate d n = (is_visible (bounding_rect d n) \<and> submit_like (node_text d n))"

definition submit_hit :: "dom \<Rightarrow> node \<Rightarrow> pyval" where
  "submit_hit d n = (if node_text d n = ''submit'' then exact_hit d n else ancestor_hit d n)"

text \<open>The submit loop passes over a selector none of whose matches is such a node.\<close>

definition no_submit_candidate :: "dom \<Rightarrow> selector \<Rightarrow> bool" where
  "no_submit_candidate d sel =
     (case query_selector_all d sel of
        Raises \<Rightarrow> False
      | Returns ns \<Rightarrow> find (submit_candidate d) ns = None)"

subsection \<open>The cascade in the words of the specification\<close>

text \<open>
  "The match from the lowest-index candidate that has a visible match; within one
  candidate's matches, the first visible match in document order."
\<close>

definition visible_matches :: "dom \<Rightarrow> selector \<Rightarrow> node list" where
  "visible_matches d sel =
     (case query_selector_all d sel of
        Raises \<Rightarrow> []
      | Returns ns \<Rightarrow> filter (\<lambda>n. is_visible (bounding_rect d n)) ns)"

fun spec_cascade :: "dom \<Rightarrow> selector list \<Rightarrow> node option" where
  "spec_cascade d [] = None"
| "spec_cascade d (sel # rest) =
     (case visible_matches d sel of [] \<Rightarrow> spec_cascade d rest | n # ns \<Rightarrow> Some n)"



subsection \<open>Two concrete edit forms\<close>

text \<open>
  A form in which the class selector matches a hidden input (node 1) before the visible
  one (node 2), and the placeholder selector matches another visible input (node 3).
\<close>

definition shadowed_form :: dom where
  \<open>shadowed_form =
     blank_dom
       \<lparr>query_selector_all :=
          (\<lambda>sel. if sel = ''input.VfPpkd-fmcmS-wGMbrd'' then Returns [1, 2]
                 else if sel = ''input[placeholder*="place name" i]'' then Returns [3]
                 else if str_includes sel '':has-text('' then Raises
                 else Returns []),
        bounding_rect :=
          (\<lambda>n. if n = 2 then \<lparr>rect_x = 10, rect_y = 20, rect_width = 100, rect_height = 30\<rparr>
               else if n = 3 then \<lparr>rect_x = 10, rect_y = 80, rect_width = 100, rect_height = 30\<rparr>
               else \<lparr>rect_x = 0, rect_y = 0, rect_width = 0, rect_height = 0\<rparr>)\<rparr>\<close>

text \<open>
  A form whose label selector matches two visible spans: node 5 reads "Submit feedback"
  and sits in the button node 4, node 6 reads "Submit".
\<close>

definition two_submit_form :: dom where
  \<open>two_submit_form =
     blank_dom
       \<lparr>query_selector_all :=
          (\<lambda>sel. if sel = ''span.VfPpkd-vQzf8d'' then Returns [5, 6]
                 else if str_includes sel '':has-text('' then Raises
                 else Returns []),
        node_matches :=
          (\<lambda>n sel. n = 4 \<and> sel = ''button, [role="button"], div[role], div''),
        ancestors := (\<lambda>n. if n = 5 then [4] else []),
        bounding_rect :=
          (\<lambda>n. if n = 4 then \<lparr>rect_x = 0, rect_y = 0, rect_width = 200, rect_height = 40\<rparr>
               else if n = 5 then \<lparr>rect_x = 50, rect_y = 10, rect_width = 100, rect_height = 20\<rparr>
               else if n = 6 then \<lparr>rect_x = 300, rect_y = 10, rect_width = 60, rect_height = 20\<rparr>
               else \<lparr>rect_x = 0, rect_y = 0, rect_width = 0, rect_height = 0\<rparr>),
        inner_text :=
          (\<lambda>n. if n = 5 then ''Submit feedback'' else if n = 6 then '' Submit '' else [])\<rparr>\<close>

subsection \<open>Edit forms in frames\<close>

text \<open>A form whose only input (node 21) is visible and has the id of the first candidate.\<close>

definition id_form :: dom where
  "id_form =
     blank_dom
       \<lparr>query_selector_all :=
          (\<lambda>sel. if sel = ''input#i7'' then Returns [21]
                 else if str_includes sel '':has-text('' then Raises
                 else Returns []),
        bounding_rect :=
          (\<lambda>n. if n = 21 then \<lparr>rect_x = 40, rect_y = 40, rect_width = 100, rect_height = 30\<rparr>
               else \<lparr>rect_x = 0, rect_y = 0, rect_width = 0, rect_height = 0\<rparr>)\<rparr>"

text \<open>The main frame shows \<^verbatim>\<open>shadowed_form\<close>, its child frame 1 shows \<^verbatim>\<open>id_form\<close>.\<close>

definition page_two_forms :: page where
  "page_two_forms =
     \<lparr>main_frame = 0, frames = [0, 1],
      document = (\<lambda>fr. if fr = 0 then Returns shadowed_form else Returns id_form)\<rparr>"

text \<open>An empty main frame, a frame that refuses evaluation, and the form in frame 2.\<close>

definition page_form_in_child :: "dom \<Rightarrow> page" where
  "page_form_in_child form =
     \<lparr>main_frame = 0, frames = [0, 1, 2],
      document = (\<lambda>fr. if fr = 0 then Returns blank_dom
                       else if fr = 1 then Raises else Returns form)\<rparr>"

section \<open>What the bot does to the browser\<close>

text \<open>
  The orchestrating methods are modelled as functions from the browser's answers to the
  method's return value and the list of things done, in order: pauses, pointer and
  keyboard input that was delivered, debug artifacts written, and the warnings printed.
  A driver call that raises leaves no entry. Progress messages other than the ones
  listed under the definitions are not recorded.
\<close>

datatype event =
    Sleep rat
  | Print string
  | Probe nat
  | MouseClick rat rat
  | LocatorClick selector nat
  | ScrollIntoView selector nat
  | KeyPress string
  | KeyType string
  | Clear selector
  | Fill selector string
  | LabelClick
  | Screenshot string
  | WriteFile string

text \<open>\<^verbatim>\<open>if self.click_delay and self.click_delay > 0: await asyncio.sleep(self.click_delay)\<close>.\<close>

definition settle :: "bot \<Rightarrow> event list" where
  "settle b = (if click_delay b \<noteq> 0 \<and> click_delay b > 0 then [Sleep (click_delay b)] else [])"

text \<open>A result whose log comes after the things already done.\<close>

fun after :: "event list \<Rightarrow> 'a \<times> event list \<Rightarrow> 'a \<times> event list" where
  "after before (r, rest) = (r, before @ rest)"

section \<open>\<^verbatim>\<open>submit_name_change\<close>: choosing the menu entry\<close>

text \<open>One entry of \<^verbatim>\<open>js_result\<close>, as the listing script builds it.\<close>

record menu_item =
  item_index :: nat
  item_text :: string
  item_visible :: bool
  item_x :: rat
  item_y :: rat
  item_class :: string

definition menu_item_of :: "dom \<Rightarrow> nat \<times> node \<Rightarrow> menu_item" where
  "menu_item_of d ie =
     \<lparr>item_index = fst ie,
      item_text = js_trim (str_or (inner_text d (snd ie)) (text_content d (snd ie))),
      item_visible = is_visible (bounding_rect d (snd ie)),
      item_x = center_x (bounding_rect d (snd ie)),
      item_y = center_y (bounding_rect d (snd ie)),
      item_class = property d (snd ie) ''className''\<rparr>"

text \<open>The listing script: the first ten clickable elements of the document.\<close>

definition list_menu_items :: "dom \<Rightarrow> menu_item list outcome" where
  \<open>list_menu_items d =
     (case query_selector_all d ''[role="menuitem"], [role="button"], div[data-value], button'' of
        Raises \<Rightarrow> Raises
      | Returns all_clickable \<Rightarrow>
          Returns (map (menu_item_of d) (enumerate 0 (take 10 all_clickable))))\<close>

text \<open>
  The browser's answers during one call of \<^verbatim>\<open>submit_name_change\<close>. Answers inside a
  loop are indexed by the loop counters, so the page may change from one call to the next.
\<close>

record name_env =
  search_query :: string
  clickables_ok :: bool
  menu_page :: page
  coordinate_click_ok :: "nat \<Rightarrow> nat \<Rightarrow> bool"
  option_count :: "nat \<Rightarrow> nat outcome"
  option_visible :: "nat \<Rightarrow> nat \<Rightarrow> bool outcome"
  option_click_ok :: "nat \<Rightarrow> nat \<Rightarrow> bool"
  poll_page :: "nat \<Rightarrow> page"
  fill_click_ok :: bool
  fill_select_ok :: bool
  fill_type_ok :: bool
  label_click_ok :: bool
  submit_page :: page
  submit_click_ok :: bool
  ok_script :: script
  ok_page :: "nat \<Rightarrow> page"
  ok_click_ok :: bool
  enter_ok :: bool
  scan_page :: page
  fallback_click_ok :: "nat \<Rightarrow> bool"
  fallback_select_ok :: "nat \<Rightarrow> bool"
  fallback_type_ok :: "nat \<Rightarrow> bool"
  fallback_submit_page :: "nat \<Rightarrow> page"
  fallback_submit_click_ok :: "nat \<Rightarrow> bool"
  screenshot_ok :: bool

text \<open>
  \<^verbatim>\<open>text_clean = ''.join(c for c in text if c.isprintable() and not c.isspace() or c == ' ')\<close>
\<close>

definition clean_text :: "string \<Rightarrow> string" where
  "clean_text t = filter (\<lambda>c. (py_isprintable c \<and> \<not> py_isspace c) \<or> c = CHR '' '') t"

text \<open>
  First pass: \<^verbatim>\<open>item['visible'] and item['text']\<close>, then
  \<^verbatim>\<open>business_name and business_name in text_clean\<close> on the stripped, upper-cased text.
\<close>

definition names_business :: "string \<Rightarrow> menu_item \<Rightarrow> bool" where
  "names_business business_name item =
     (item_visible item \<and> item_text item \<noteq> [] \<and> business_name \<noteq> []
      \<and> str_includes (clean_text (upper (py_strip (item_text item)))) business_name)"

text \<open>
  Second pass: \<^verbatim>\<open>len(text_clean) > 1 and not 'http' in text_clean.lower()\<close> on the
  stripped text.
\<close>

definition meaningful :: "menu_item \<Rightarrow> bool" where
  "meaningful item =
     (item_visible item \<and> item_text item \<noteq> []
      \<and> length (py_strip (item_text item)) > 1
      \<and> \<not> str_includes (lower (py_strip (item_text item))) ''http'')"

text \<open>Third pass: the first item with \<^verbatim>\<open>item['visible'] and item['text']\<close>.\<close>

definition has_text :: "menu_item \<Rightarrow> bool" where
  "has_text item = (item_visible item \<and> item_text item \<noteq> [])"

text \<open>
  The shape shared by the first two passes: go through \<^verbatim>\<open>js_result\<close>, click the first
  wanted item whose click returns, and leave the loop; a click that raises is reported
  and the loop goes on. \<^verbatim>\<open>ok i\<close> says whether the click on the item at position \<^verbatim>\<open>i\<close>
  returns.
\<close>

fun click_pass ::
  "bot \<Rightarrow> (menu_item \<Rightarrow> bool) \<Rightarrow> (nat \<Rightarrow> bool) \<Rightarrow> nat \<Rightarrow> menu_item list \<Rightarrow> bool \<times> event list" where
  "click_pass b wanted ok i [] = (False, [])"
| "click_pass b wanted ok i (item # rest) =
     (if wanted item \<and> ok i
      then (True, MouseClick (item_x item) (item_y item) # settle b @ [Sleep 2])
      else click_pass b wanted ok (Suc i) rest)"

text \<open>The three passes over \<^verbatim>\<open>js_result\<close> (source lines 779 to 845).\<close>

definition click_by_coordinates :: "bot \<Rightarrow> name_env \<Rightarrow> menu_item list \<Rightarrow> bool \<times> event list" where
  "click_by_coordinates b env js_result =
     (let business_name = upper (search_query env);
          first_pass = click_pass b (names_business business_name) (coordinate_click_ok env 1) 0 js_result
      in if fst first_pass then first_pass
         else
           let second_pass = click_pass b meaningful (coordinate_click_ok env 2) 0 js_result
           in if fst second_pass then second_pass
              else if js_result \<noteq> [] then
                (case find has_text js_result of
                   None \<Rightarrow> (False, [])
                 | Some first_visible \<Rightarrow>
                     if coordinate_click_ok env 3 0
                     then (True, MouseClick (item_x first_visible) (item_y first_visible)
                                   # settle b @ [Sleep 2])
                     else (False, []))
              else (False, []))"

text \<open>The selectors of the selector-based approach, in the source's order.\<close>

definition menu_option_selectors :: "selector list" where
  \<open>menu_option_selectors =
     [''div:has-text("AIQ")'',
      ''div:has-text("name" i)'',
      ''*[role="menuitem"]:has-text("name" i)'',
      ''*[role="button"]:has-text("name" i)'',
      ''div[data-value]:has-text("AIQ")'',
      ''button:has-text("AIQ")'',
      ''[jsaction]:has-text("AIQ")'',
      ''[role="menuitem"]'',
      ''div[role="menuitem"]'',
      ''[data-value]'',
      ''div[data-value]'',
      ''div[class*="menu-item"]'',
      ''div[class*="MenuItem"]'',
      ''button[class*="edit"]'',
      ''*[role="button"]'',
      ''*[role="menuitem"]'']\<close>

text \<open>
  \<^verbatim>\<open>for idx in range(min(count, 5))\<close>: the first option that is visible and whose click
  returns ends the loop; an option that is not visible, or a call that raises, goes on.
\<close>

fun try_options :: "bot \<Rightarrow> name_env \<Rightarrow> nat \<Rightarrow> selector \<Rightarrow> nat list \<Rightarrow> bool \<times> event list" where
  "try_options b env i sel [] = (False, [])"
| "try_options b env i sel (idx # rest) =
     (case option_visible env i idx of
        Returns True \<Rightarrow>
          if option_click_ok env i idx
          then (True, LocatorClick sel idx # settle b @ [Sleep 2])
          else try_options b env i sel rest
      | Returns False \<Rightarrow> try_options b env i sel rest
      | Raises \<Rightarrow> try_options b env i sel rest)"

text \<open>\<^verbatim>\<open>for selector in menu_option_selectors\<close>, \<^verbatim>\<open>i\<close> counting the selectors.\<close>

fun click_by_selectors :: "bot \<Rightarrow> name_env \<Rightarrow> nat \<Rightarrow> selector list \<Rightarrow> bool \<times> event list" where
  "click_by_selectors b env i [] = (False, [])"
| "click_by_selectors b env i (sel # rest) =
     (case option_count env i of
        Raises \<Rightarrow> click_by_selectors b env (Suc i) rest
      | Returns count \<Rightarrow>
          (case try_options b env i sel [0..<min count 5] of
             (True, clicked) \<Rightarrow> (True, clicked)
           | (False, tried) \<Rightarrow> click_by_selectors b env (Suc i) rest))"

text \<open>
  Step 1 of \<^verbatim>\<open>submit_name_change\<close>: the coordinate passes inside their \<^verbatim>\<open>try\<close> (a raising
  \<^verbatim>\<open>count()\<close> or listing script leaves \<^verbatim>\<open>clicked_menu_option\<close> false), then the selector
  loop when nothing was clicked. The value is \<^verbatim>\<open>clicked_menu_option\<close>.
\<close>

definition click_menu_entry :: "bot \<Rightarrow> name_env \<Rightarrow> bool \<times> event list" where
  "click_menu_entry b env =
     (case (if \<not> clickables_ok env then (False, [])
            else case frame_evaluate (menu_page env) (main_frame (menu_page env)) list_menu_items of
                   Raises \<Rightarrow> (False, [])
                 | Returns js_result \<Rightarrow> click_by_coordinates b env js_result) of
        (True, clicked) \<Rightarrow> (True, clicked)
      | (False, tried) \<Rightarrow> click_by_selectors b env 0 menu_option_selectors)"

section \<open>\<^verbatim>\<open>submit_name_change\<close>: filling the field and submitting\<close>

text \<open>Every key of \<^verbatim>\<open>ks\<close> can be read from \<^verbatim>\<open>v\<close> without an exception.\<close>

definition has_keys :: "pyval \<Rightarrow> string list \<Rightarrow> bool" where
  "has_keys v ks = list_all (\<lambda>k. subscript v k \<noteq> Raises) ks"

text \<open>
  The confirmation step after a submit click: up to six attempts, half a second apart;
  the whole step sits in \<^verbatim>\<open>try: ... except Exception: pass\<close>, so an exception only ends
  it. The confirmation script itself is a parameter (\<^verbatim>\<open>ok_script\<close>); a click made through
  \<^verbatim>\<open>_click_xy_in_frame\<close> appears with that method's own settle delay.
\<close>

fun ok_loop :: "bot \<Rightarrow> name_env \<Rightarrow> nat list \<Rightarrow> event list" where
  "ok_loop b env [] = []"
| "ok_loop b env (k # rest) =
     (let ok_btn = fst (evaluate_in_all_frames (ok_page env k) (ok_script env))
      in if truthy ok_btn then
           (case (as_number (subscript ok_btn ''x''), as_number (subscript ok_btn ''y'')) of
              (Returns x, Returns y) \<Rightarrow>
                if ok_click_ok env then MouseClick x y # settle b @ settle b else []
            | (Returns x, Raises) \<Rightarrow> []
            | (Raises, y) \<Rightarrow> [])
         else Sleep (1 / 2) # ok_loop b env rest)"

text \<open>
  Source lines 971 to 1119, entered with what was done so far: look for the submit control in
  all frames; click it and return \<^verbatim>\<open>True\<close>, or press Enter and return \<^verbatim>\<open>True\<close>, or report
  that no submit button was found and return \<^verbatim>\<open>True\<close>. An exception outside the inner
  \<^verbatim>\<open>try\<close> blocks reaches the method's outer handler, which returns \<^verbatim>\<open>False\<close>.
\<close>

definition press_submit :: "bot \<Rightarrow> name_env \<Rightarrow> event list \<Rightarrow> bool \<times> event list" where
  "press_submit b env so_far =
     (let submit_button =
            fst (evaluate_in_all_frames (submit_page env) (find_submit_button (submit_selectors b)))
      in if truthy submit_button then
           (if \<not> has_keys submit_button [''text''] then (False, so_far)
            else case (as_number (subscript submit_button ''x''),
                       as_number (subscript submit_button ''y'')) of
                   (Returns x, Returns y) \<Rightarrow>
                     if \<not> submit_click_ok env then (False, so_far)
                     else (True, so_far @ MouseClick x y # settle b @ settle b
                                 @ (if post_ok_click b then ok_loop b env [0..<6] else []))
                 | (Returns x, Raises) \<Rightarrow> (False, so_far)
                 | (Raises, y) \<Rightarrow> (False, so_far))
         else if enter_ok env then (True, so_far @ [KeyPress ''Enter'', Sleep 2])
         else (True, so_far @ [Print ''Submit button not found'']))"

text \<open>Source lines 937 to 970: click the input found, select all, type the new name.\<close>

definition fill_and_submit :: "bot \<Rightarrow> name_env \<Rightarrow> string \<Rightarrow> pyval \<Rightarrow> bool \<times> event list" where
  "fill_and_submit b env new_name place_name_input =
     (if \<not> has_keys place_name_input [''placeholder'', ''ariaLabel'', ''foundBy''] then (False, [])
      else case (as_number (subscript place_name_input ''x''),
                 as_number (subscript place_name_input ''y'')) of
             (Returns x, Returns y) \<Rightarrow>
               if \<not> fill_click_ok env then (False, [])
               else if \<not> fill_select_ok env then (False, MouseClick x y # settle b @ [Sleep (1 / 2)])
               else if \<not> fill_type_ok env
               then (False, MouseClick x y # settle b
                              @ [Sleep (1 / 2), KeyPress ''Control+a'', Sleep (3 / 10)])
               else press_submit b env
                      (MouseClick x y # settle b
                         @ [Sleep (1 / 2), KeyPress ''Control+a'', Sleep (3 / 10),
                            KeyType new_name, Sleep 1]
                         @ (if subscript place_name_input ''foundBy'' = Returns (PStr ''material-design'')
                               \<and> label_click_ok env
                            then [LabelClick] else [])
                         @ [Sleep 2])
           | (Returns x, Raises) \<Rightarrow> (False, [])
           | (Raises, y) \<Rightarrow> (False, []))"

text \<open>
  \<^verbatim>\<open>for attempt in range(20)\<close>: sleep a second, look for the place-name input in all
  frames; once it is found the method returns from inside the loop. \<^verbatim>\<open>None\<close> says that
  the loop ran out.
\<close>

fun poll_place_name ::
  "bot \<Rightarrow> name_env \<Rightarrow> string \<Rightarrow> nat list \<Rightarrow> bool option \<times> event list" where
  "poll_place_name b env new_name [] = (None, [])"
| "poll_place_name b env new_name (attempt # rest) =
     (let place_name_input =
            fst (evaluate_in_all_frames (poll_page env attempt)
                   (find_place_name_input (place_name_selectors b)))
      in if truthy place_name_input
         then (case fill_and_submit b env new_name place_name_input of
                 (r, did) \<Rightarrow> (Some r, Sleep 1 # did))
         else after [Sleep 1] (poll_place_name b env new_name rest))"

subsection \<open>The fallback: any editable element\<close>

text \<open>One entry of \<^verbatim>\<open>editable_elements\<close>, as the scanning script builds it.\<close>

record editable =
  ed_x :: rat
  ed_y :: rat
  ed_value :: string
  ed_placeholder :: string
  ed_tag :: string

text \<open>The search-box filter of the scanning script.\<close>

definition scan_placeholder :: "dom \<Rightarrow> node \<Rightarrow> string" where
  "scan_placeholder d el = str_or (property d el ''placeholder'') (attr_or_empty d el ''placeholder'')"

definition not_search_box :: "dom \<Rightarrow> node \<Rightarrow> bool" where
  "not_search_box d el =
     (\<not> str_includes (property d el ''className'') ''searchboxinput''
      \<and> \<not> str_includes (property d el ''className'') ''omnibox''
      \<and> \<not> str_includes (lower (scan_placeholder d el)) ''search'')"

definition editable_value :: "dom \<Rightarrow> node \<Rightarrow> string" where
  "editable_value d el =
     (if property d el ''tagName'' = ''INPUT'' \<or> property d el ''tagName'' = ''TEXTAREA''
      then property d el ''value''
      else if property d el ''contentEditable'' = ''true''
      then str_or (inner_text d el) (text_content d el)
      else [])"

definition editable_of :: "dom \<Rightarrow> node \<Rightarrow> editable" where
  "editable_of d el =
     \<lparr>ed_x = center_x (bounding_rect d el),
      ed_y = center_y (bounding_rect d el),
      ed_value = take 50 (editable_value d el),
      ed_placeholder = take 50 (scan_placeholder d el),
      ed_tag = property d el ''tagName''\<rparr>"

text \<open>The scanning script (source lines 1129 to 1168).\<close>

definition scan_editable :: "dom \<Rightarrow> editable list outcome" where
  "scan_editable d =
     (case query_selector_all d ''input, textarea, [contenteditable]'' of
        Raises \<Rightarrow> Raises
      | Returns all_elements \<Rightarrow>
          Returns (map (editable_of d)
                     (filter (\<lambda>el. is_visible (bounding_rect d el) \<and> not_search_box d el)
                        all_elements)))"

text \<open>The submit search of the fallback (source lines 1190 to 1248).\<close>

definition fallback_submit_selectors :: "selector list" where
  \<open>fallback_submit_selectors =
     [''span[jsname="V67aGc"]'',
      ''span.VfPpkd-vQzf8d'',
      ''div.VfPpkd-RLmnJb'',
      ''button:has-text("Submit")'',
      ''button:has-text("Send")'',
      ''[role="button"]:has-text("Submit")'',
      ''*[aria-label*="Submit" i]'',
      ''*[aria-label*="Send" i]'']\<close>

definition selector_hit :: "dom \<Rightarrow> node \<Rightarrow> pyval" where
  "selector_hit d btn =
     PDict [(''x'', PNum (center_x (bounding_rect d btn))),
            (''y'', PNum (center_y (bounding_rect d btn))),
            (''text'', PStr (node_text d btn)),
            (''className'', PStr (property d btn ''className'')),
            (''jsname'', PStr (attr_or_empty d btn ''jsname''))]"

definition clickable_hit :: "dom \<Rightarrow> node \<Rightarrow> pyval" where
  "clickable_hit d btn =
     PDict [(''x'', PNum (center_x (bounding_rect d btn))),
            (''y'', PNum (center_y (bounding_rect d btn))),
            (''text'', PStr (node_text d btn)),
            (''className'', PStr (property d btn ''className''))]"

fun fallback_nodes_loop :: "dom \<Rightarrow> node list \<Rightarrow> pyval option" where
  "fallback_nodes_loop d [] = None"
| "fallback_nodes_loop d (btn # rest) =
     (if is_visible (bounding_rect d btn) \<and> submit_like (node_text d btn)
      then Some (selector_hit d btn)
      else fallback_nodes_loop d rest)"

text \<open>Here each selector has its own \<^verbatim>\<open>try/catch\<close>: a rejected selector is skipped.\<close>

fun fallback_selector_loop :: "dom \<Rightarrow> selector list \<Rightarrow> pyval option" where
  "fallback_selector_loop d [] = None"
| "fallback_selector_loop d (sel # rest) =
     (case query_selector_all d sel of
        Raises \<Rightarrow> fallback_selector_loop d rest
      | Returns elements \<Rightarrow>
          (case fallback_nodes_loop d elements of
             Some hit \<Rightarrow> Some hit
           | None \<Rightarrow> fallback_selector_loop d rest))"

fun fallback_clickable_loop :: "dom \<Rightarrow> node list \<Rightarrow> pyval" where
  "fallback_clickable_loop d [] = PNone"
| "fallback_clickable_loop d (btn # rest) =
     (if is_visible (bounding_rect d btn)
         \<and> (node_text d btn = ''submit'' \<or> node_text d btn = ''send'')
      then clickable_hit d btn
      else fallback_clickable_loop d rest)"

definition fallback_find_submit :: script where
  \<open>fallback_find_submit d =
     (case fallback_selector_loop d fallback_submit_selectors of
        Some hit \<Rightarrow> Returns hit
      | None \<Rightarrow>
          (case query_selector_all d ''button, [role="button"], div, span'' of
             Raises \<Rightarrow> Raises
           | Returns all_clickable \<Rightarrow> Returns (fallback_clickable_loop d all_clickable)))\<close>

text \<open>
  The body of \<^verbatim>\<open>for idx, inp in enumerate(editable_elements)\<close> (source lines 1177 to
  1264), all of it inside \<^verbatim>\<open>try: ... except Exception: continue\<close>. \<^verbatim>\<open>Some r\<close> says that
  the method returns \<^verbatim>\<open>r\<close> from inside the loop, \<^verbatim>\<open>None\<close> that the loop goes on with the
  next element. The click on the submit button is not guarded by
  \<^verbatim>\<open>if submit_button:\<close>; the \<^verbatim>\<open>else\<close> branch belongs to the test of \<^verbatim>\<open>click_delay\<close>.
\<close>

definition fallback_input_step ::
  "bot \<Rightarrow> name_env \<Rightarrow> string \<Rightarrow> nat \<Rightarrow> editable \<Rightarrow> bool option \<times> event list" where
  "fallback_input_step b env new_name idx inp =
     (if \<not> fallback_click_ok env idx then (None, [])
      else if \<not> fallback_select_ok env idx
      then (None, MouseClick (ed_x inp) (ed_y inp) # settle b @ [Sleep (1 / 2)])
      else if \<not> fallback_type_ok env idx
      then (None, MouseClick (ed_x inp) (ed_y inp) # settle b
                    @ [Sleep (1 / 2), KeyPress ''Control+a'', Sleep (3 / 10)])
      else
        let filled = MouseClick (ed_x inp) (ed_y inp) # settle b
                       @ [Sleep (1 / 2), KeyPress ''Control+a'', Sleep (3 / 10),
                          KeyType new_name, Sleep 1]
        in case frame_evaluate (fallback_submit_page env idx)
                  (main_frame (fallback_submit_page env idx)) fallback_find_submit of
             Raises \<Rightarrow> (None, filled)
           | Returns submit_button \<Rightarrow>
               if truthy submit_button \<and> \<not> has_keys submit_button [''text''] then (None, filled)
               else
                 (case (as_number (subscript submit_button ''x''),
                        as_number (subscript submit_button ''y'')) of
                    (Returns x, Returns y) \<Rightarrow>
                      if \<not> fallback_submit_click_ok env idx then (None, filled)
                      else if click_delay b \<noteq> 0 \<and> click_delay b > 0
                      then (Some True, filled @ [MouseClick x y, Sleep (click_delay b), Sleep 2])
                      else (Some True, filled @ [MouseClick x y, Print ''Submit button not found''])
                  | (Returns x, Raises) \<Rightarrow> (None, filled)
                  | (Raises, y) \<Rightarrow> (None, filled)))"

fun fallback_inputs_loop ::
  "bot \<Rightarrow> name_env \<Rightarrow> string \<Rightarrow> nat \<Rightarrow> editable list \<Rightarrow> bool option \<times> event list" where
  "fallback_inputs_loop b env new_name idx [] = (None, [])"
| "fallback_inputs_loop b env new_name idx (inp # rest) =
     (case fallback_input_step b env new_name idx inp of
        (Some r, did) \<Rightarrow> (Some r, did)
      | (None, did) \<Rightarrow> after did (fallback_inputs_loop b env new_name (Suc idx) rest))"

text \<open>
  Source lines 1127 to 1273: scan for editable elements; try each; with none at all,
  save a screenshot and return \<^verbatim>\<open>False\<close>. A scan or a screenshot that raises reaches
  the outer handler, which returns \<^verbatim>\<open>False\<close>.
\<close>

definition fallback_any_input :: "bot \<Rightarrow> name_env \<Rightarrow> string \<Rightarrow> bool option \<times> event list" where
  "fallback_any_input b env new_name =
     (case frame_evaluate (scan_page env) (main_frame (scan_page env)) scan_editable of
        Raises \<Rightarrow> (Some False, [])
      | Returns editable_elements \<Rightarrow>
          if editable_elements \<noteq> [] then fallback_inputs_loop b env new_name 0 editable_elements
          else if screenshot_ok env then (Some False, [Screenshot ''debug_no_inputs.png''])
          else (Some False, []))"

section \<open>\<^verbatim>\<open>submit_name_change\<close>\<close>

text \<open>
  The whole method: the return value and the log. After the opening pause and the menu
  step, the field is looked for only when a menu entry was clicked; a poll that runs out
  falls back to any editable element; whatever is left ends with a pause of two seconds
  and \<^verbatim>\<open>True\<close>.
\<close>

definition submit_name_change :: "bot \<Rightarrow> name_env \<Rightarrow> string \<Rightarrow> bool \<times> event list" where
  "submit_name_change b env new_name =
     (case click_menu_entry b env of
        (True, menu) \<Rightarrow>
          (case poll_place_name b env new_name [0..<20] of
             (Some r, polled) \<Rightarrow> (r, Sleep 2 # menu @ polled)
           | (None, polled) \<Rightarrow>
               (case fallback_any_input b env new_name of
                  (Some r, tried) \<Rightarrow> (r, Sleep 2 # menu @ polled @ tried)
                | (None, tried) \<Rightarrow> (True, Sleep 2 # menu @ polled @ tried @ [Sleep 2])))
      | (False, menu) \<Rightarrow>
          (True, Sleep 2 # menu
                   @ [Print ''Menu option not found or could not fill input'', Sleep 2]))"

section \<open>\<^verbatim>\<open>submit_address_change\<close>\<close>

text \<open>
  The browser's answers during one call. For the selector at position \<^verbatim>\<open>i\<close> of a loop,
  \<^verbatim>\<open>Returns True\<close> says that the locator has a first element and that it is visible,
  \<^verbatim>\<open>Returns False\<close> that it has none or a hidden one, \<^verbatim>\<open>Raises\<close> that a call raised.
\<close>

record address_env =
  address_option :: "nat \<Rightarrow> bool outcome"
  address_option_click_ok :: "nat \<Rightarrow> bool"
  address_input :: "nat \<Rightarrow> bool outcome"
  address_input_click_ok :: "nat \<Rightarrow> bool"
  address_input_clear_ok :: "nat \<Rightarrow> bool"
  address_input_fill_ok :: "nat \<Rightarrow> bool"
  address_submit :: "nat \<Rightarrow> bool outcome"
  address_submit_click_ok :: "nat \<Rightarrow> bool"

definition address_menu_selectors :: "selector list" where
  \<open>address_menu_selectors =
     ['':has-text("Address")'',
      ''[role="menuitem"]:has-text("Address")'',
      ''div:has-text("Address"):has([role="menuitem"])'',
      ''div:has-text("address"):has([role="button"])'',
      ''[data-value="address"]'',
      ''[data-item-value="address"]'',
      ''button:has-text("Address")'',
      ''div[role="button"]:has-text("Address")'',
      ''a:has-text("Address")'']\<close>

definition address_input_selectors :: "selector list" where
  \<open>address_input_selectors =
     [''input[placeholder*="address" i]'',
      ''input[placeholder*="location" i]'',
      ''input[placeholder*="Address" i]'',
      ''input[aria-label*="address" i]'',
      ''textarea[placeholder*="address" i]'',
      ''input[type="text"]'']\<close>

definition address_submit_selectors :: "selector list" where
  \<open>address_submit_selectors =
     [''button:has-text("Submit")'',
      ''button:has-text("Send")'',
      ''button[type="submit"]'',
      ''button:has-text("done")'',
      ''[aria-label="Submit"]'',
      ''[aria-label="Send"]'']\<close>

text \<open>Step 1: click the first visible address entry of the menu.\<close>

fun address_options_loop :: "bot \<Rightarrow> address_env \<Rightarrow> nat \<Rightarrow> selector list \<Rightarrow> bool \<times> event list" where
  "address_options_loop b env i [] = (False, [])"
| "address_options_loop b env i (sel # rest) =
     (case address_option env i of
        Returns True \<Rightarrow>
          if address_option_click_ok env i
          then (True, LocatorClick sel 0 # settle b @ [Sleep 2])
          else address_options_loop b env (Suc i) rest
      | Returns False \<Rightarrow> address_options_loop b env (Suc i) rest
      | Raises \<Rightarrow> address_options_loop b env (Suc i) rest)"

text \<open>
  Without a menu entry: click, clear and fill the first visible address input. A call
  that raises after an earlier one went through leaves the earlier one done and goes on
  with the next selector.
\<close>

fun address_inputs_loop ::
  "address_env \<Rightarrow> string \<Rightarrow> nat \<Rightarrow> selector list \<Rightarrow> bool \<times> event list" where
  "address_inputs_loop env new_address i [] = (False, [])"
| "address_inputs_loop env new_address i (sel # rest) =
     (case address_input env i of
        Returns True \<Rightarrow>
          if \<not> address_input_click_ok env i then address_inputs_loop env new_address (Suc i) rest
          else if \<not> address_input_clear_ok env i
          then after [LocatorClick sel 0] (address_inputs_loop env new_address (Suc i) rest)
          else if \<not> address_input_fill_ok env i
          then after [LocatorClick sel 0, Clear sel]
                 (address_inputs_loop env new_address (Suc i) rest)
          else (True, [LocatorClick sel 0, Clear sel, Fill sel new_address])
      | Returns False \<Rightarrow> address_inputs_loop env new_address (Suc i) rest
      | Raises \<Rightarrow> address_inputs_loop env new_address (Suc i) rest)"

text \<open>Step 2: click the first visible submit button.\<close>

fun address_submit_loop :: "bot \<Rightarrow> address_env \<Rightarrow> nat \<Rightarrow> selector list \<Rightarrow> bool \<times> event list" where
  "address_submit_loop b env i [] = (False, [])"
| "address_submit_loop b env i (sel # rest) =
     (case address_submit env i of
        Returns True \<Rightarrow>
          if address_submit_click_ok env i
          then (True, LocatorClick sel 0 # settle b @ [Sleep 2])
          else address_submit_loop b env (Suc i) rest
      | Returns False \<Rightarrow> address_submit_loop b env (Suc i) rest
      | Raises \<Rightarrow> address_submit_loop b env (Suc i) rest)"

text \<open>
  The value of \<^verbatim>\<open>clicked_menu_option\<close> when the two tiers that look for the address
  field are through: a menu entry was clicked, or an address input was filled.
\<close>

definition address_field_found :: "bot \<Rightarrow> address_env \<Rightarrow> string \<Rightarrow> bool" where
  "address_field_found b env new_address =
     (fst (address_options_loop b env 0 address_menu_selectors)
      \<or> fst (address_inputs_loop env new_address 0 address_input_selectors))"

text \<open>
  The whole method. Every driver call sits in a \<^verbatim>\<open>try\<close> whose handler goes on with the
  next selector, and the only \<^verbatim>\<open>return\<close> outside the outer handler is \<^verbatim>\<open>return True\<close>.
\<close>

definition submit_address_change :: "bot \<Rightarrow> address_env \<Rightarrow> string \<Rightarrow> bool \<times> event list" where
  "submit_address_change b env new_address =
     (case address_options_loop b env 0 address_menu_selectors of
        (clicked, option) \<Rightarrow>
          (case (if clicked then (True, [])
                 else address_inputs_loop env new_address 0 address_input_selectors) of
             (found, input) \<Rightarrow>
               (case address_submit_loop b env 0 address_submit_selectors of
                  (submitted, submit) \<Rightarrow>
                    (True,
                     Sleep 2 # option @ input
                       @ (if \<not> found then [Print ''Could not find address input automatically'']
                          else [])
                       @ [Sleep 1] @ submit
                       @ (if \<not> submitted
                          then [Print ''Could not find submit button automatically'', Sleep 5]
                          else [])
                       @ [Sleep 2]))))"

section \<open>Callers of the two edit methods\<close>

text \<open>
  \<^verbatim>\<open>suggest_general_edit\<close>: both calls are statements, their values are dropped, and the
  method returns \<^verbatim>\<open>True\<close>. (Its handler returns \<^verbatim>\<open>False\<close> for an exception, which the two
  methods do not raise.)
\<close>

definition suggest_general_edit ::
  "bot \<Rightarrow> name_env \<Rightarrow> address_env \<Rightarrow> (string \<rightharpoonup> string) \<Rightarrow> bool \<times> event list" where
  "suggest_general_edit b nenv aenv edit_details =
     (True,
      (case edit_details ''name'' of
         None \<Rightarrow> []
       | Some name \<Rightarrow> snd (submit_name_change b nenv name))
      @ (case edit_details ''address'' of
           None \<Rightarrow> []
         | Some address \<Rightarrow> Sleep 1 # snd (submit_address_change b aenv address)))"

text \<open>
  The "Submit edits" part of \<^verbatim>\<open>main_async\<close> (source lines 1494 to 1501). The two calls
  are statements again; \<^verbatim>\<open>main_async\<close> has no \<^verbatim>\<open>return\<close> with a value, so all that the
  model can give is what was done. \<^verbatim>\<open>if name:\<close> holds for a non-empty string.
\<close>

definition submit_edits ::
  "bot \<Rightarrow> name_env \<Rightarrow> address_env \<Rightarrow> string option \<Rightarrow> string option \<Rightarrow> event list" where
  "submit_edits b nenv aenv name address =
     (case name of
        None \<Rightarrow> []
      | Some n \<Rightarrow> if n \<noteq> [] then snd (submit_name_change b nenv n) else [])
     @ (case address of
          None \<Rightarrow> []
        | Some a \<Rightarrow>
            if a \<noteq> []
            then (case name of None \<Rightarrow> [] | Some n \<Rightarrow> if n \<noteq> [] then [Sleep 2] else [])
                 @ snd (submit_address_change b aenv a)
            else [])"

section \<open>\<^verbatim>\<open>open_suggest_edit\<close>\<close>

text \<open>
  The browser's answers during one call. \<^verbatim>\<open>panel_probe k\<close> is the panel test of polling
  attempt \<^verbatim>\<open>k\<close> (\<^verbatim>\<open>count() > 0 and is_visible()\<close>); \<^verbatim>\<open>suggest_actionable i idx\<close> is
  \<^verbatim>\<open>is_visible and is_enabled\<close> for match \<^verbatim>\<open>idx\<close> of selector \<^verbatim>\<open>i\<close>; \<^verbatim>\<open>panel_box\<close> is the
  bounding box of the panel, \<^verbatim>\<open>Returns None\<close> without a panel or a box; \<^verbatim>\<open>key_ok k\<close> says
  whether the \<^verbatim>\<open>k\<close>-th key press of the keyboard navigation returns; \<^verbatim>\<open>text_present i\<close> is
  \<^verbatim>\<open>count() > 0\<close> for the locator built from the \<^verbatim>\<open>i\<close>-th page text.
\<close>

record edit_env =
  panel_probe :: "nat \<Rightarrow> bool outcome"
  suggest_count :: "nat \<Rightarrow> nat outcome"
  suggest_actionable :: "nat \<Rightarrow> nat \<Rightarrow> bool outcome"
  suggest_scroll_ok :: "nat \<Rightarrow> nat \<Rightarrow> bool"
  suggest_click_ok :: "nat \<Rightarrow> nat \<Rightarrow> bool"
  panel_box :: "rect option outcome"
  panel_click_ok :: bool
  key_ok :: "nat \<Rightarrow> bool"
  all_texts :: "string list outcome"
  text_present :: "nat \<Rightarrow> bool outcome"
  text_click_ok :: "nat \<Rightarrow> bool"
  debug_screenshot_ok :: bool
  debug_content_ok :: bool
  debug_write_ok :: bool

text \<open>
  \<^verbatim>\<open>max_attempts = max(0, int(self.panel_wait_seconds))\<close> and
  \<^verbatim>\<open>for attempt in range(max_attempts or 1)\<close>.
\<close>

definition poll_attempts :: "bot \<Rightarrow> nat" where
  "poll_attempts b =
     (let max_attempts = nat (max 0 (panel_wait_seconds b))
      in if max_attempts \<noteq> 0 then max_attempts else 1)"

text \<open>
  The polling loop: \<^verbatim>\<open>Probe k\<close> records that attempt \<^verbatim>\<open>k\<close> was made. A visible panel ends
  the loop at once; otherwise, also when the test raises, the loop sleeps one second.
\<close>

fun poll_panel :: "edit_env \<Rightarrow> nat list \<Rightarrow> bool \<times> event list" where
  "poll_panel env [] = (False, [])"
| "poll_panel env (attempt # rest) =
     (case panel_probe env attempt of
        Returns True \<Rightarrow> (True, [Probe attempt])
      | Returns False \<Rightarrow> after [Probe attempt, Sleep 1] (poll_panel env rest)
      | Raises \<Rightarrow> after [Probe attempt, Sleep 1] (poll_panel env rest))"

definition suggest_selectors :: "selector list" where
  \<open>suggest_selectors =
     [''button:has-text("Suggest an edit")'',
      ''button[aria-label*="Suggest an edit" i]'',
      ''button[title*="Suggest an edit" i]'',
      ''button:has-text("Suggest")'',
      ''button:has-text("Edit")'',
      ''[role="button"]:has-text("Suggest an edit")'',
      ''[role="button"]:has-text("Suggest")'',
      ''[aria-label="Suggest an edit"]'',
      ''[aria-label*="Suggest an edit"]'',
      ''[title="Suggest an edit"]'',
      ''[data-value="suggest"]'',
      ''[jsaction*="suggest"]'',
      ''[id*="suggest"]'',
      ''[class*="suggest"]'',
      ''[data-container-id] button:has-text("Suggest")'',
      ''[data-container-id] button:has-text("Edit")'',
      ''div[role="button"]:has-text("Suggest")'',
      ''div[role="button"]:has-text("Edit")'',
      ''div[role="menuitem"]:has-text("Suggest an edit")'',
      ''div[role="menuitem"]:has-text("Edit")'',
      ''div[role="menuitem"]:has-text("Suggest")'',
      ''a:has-text("Suggest an edit")'',
      ''a:has-text("Suggest")'',
      ''text="Suggest an edit"'',
      ''text="Edit"'',
      ''text="Suggest"'']\<close>

text \<open>
  Method 1, inner loop \<^verbatim>\<open>for idx in range(min(count, 3))\<close>: a visible and enabled match
  is scrolled into view and clicked; a call that raises goes on with the next match.
\<close>

fun try_matches :: "bot \<Rightarrow> edit_env \<Rightarrow> nat \<Rightarrow> selector \<Rightarrow> nat list \<Rightarrow> bool \<times> event list" where
  "try_matches b env i sel [] = (False, [])"
| "try_matches b env i sel (idx # rest) =
     (case suggest_actionable env i idx of
        Returns True \<Rightarrow>
          if \<not> suggest_scroll_ok env i idx then try_matches b env i sel rest
          else if \<not> suggest_click_ok env i idx
          then after [ScrollIntoView sel idx, Sleep (3 / 10)] (try_matches b env i sel rest)
          else (True, [ScrollIntoView sel idx, Sleep (3 / 10), LocatorClick sel idx] @ settle b)
      | Returns False \<Rightarrow> try_matches b env i sel rest
      | Raises \<Rightarrow> try_matches b env i sel rest)"

text \<open>Method 1, outer loop \<^verbatim>\<open>for i, selector in enumerate(selectors)\<close>.\<close>

fun click_suggest_selectors ::
  "bot \<Rightarrow> edit_env \<Rightarrow> nat \<Rightarrow> selector list \<Rightarrow> bool \<times> event list" where
  "click_suggest_selectors b env i [] = (False, [])"
| "click_suggest_selectors b env i (sel # rest) =
     (case suggest_count env i of
        Raises \<Rightarrow> click_suggest_selectors b env (Suc i) rest
      | Returns count \<Rightarrow>
          (case try_matches b env i sel [0..<min count 3] of
             (True, clicked) \<Rightarrow> (True, clicked)
           | (False, tried) \<Rightarrow> after tried (click_suggest_selectors b env (Suc i) rest)))"

text \<open>Method 2: a click at a fixed offset inside the panel's bounding box.\<close>

definition click_panel_area :: "bot \<Rightarrow> edit_env \<Rightarrow> bool \<times> event list" where
  "click_panel_area b env =
     (case panel_box env of
        Raises \<Rightarrow> (False, [])
      | Returns None \<Rightarrow> (False, [])
      | Returns (Some box) \<Rightarrow>
          if panel_click_ok env
          then (True, MouseClick (rect_x box + rect_width box - 100) (rect_y box + 100) # settle b)
          else (False, []))"

text \<open>Method 3: five times Tab with a pause, then Enter; a press that raises ends it.\<close>

fun press_tabs :: "edit_env \<Rightarrow> nat list \<Rightarrow> bool \<times> event list" where
  "press_tabs env [] = (True, [])"
| "press_tabs env (k # rest) =
     (if key_ok env k then after [KeyPress ''Tab'', Sleep (3 / 10)] (press_tabs env rest)
      else (False, []))"

definition keyboard_navigation :: "bot \<Rightarrow> edit_env \<Rightarrow> bool \<times> event list" where
  "keyboard_navigation b env =
     (case press_tabs env [0..<5] of
        (True, tabs) \<Rightarrow>
          if key_ok env 5 then (True, tabs @ KeyPress ''Enter'' # settle b) else (False, tabs)
      | (False, tabs) \<Rightarrow> (False, tabs))"

text \<open>
  The last resort: the first page text that mentions "suggest" or "edit" and whose
  locator \<^verbatim>\<open>text="..."\<close> has an element that can be clicked.
\<close>

fun try_texts :: "bot \<Rightarrow> edit_env \<Rightarrow> nat \<Rightarrow> string list \<Rightarrow> bool \<times> event list" where
  "try_texts b env i [] = (False, [])"
| "try_texts b env i (text # rest) =
     (if str_includes (lower text) ''suggest'' \<or> str_includes (lower text) ''edit''
      then (case text_present env i of
              Returns True \<Rightarrow>
                if text_click_ok env i
                then (True, LocatorClick (''text=\"'' @ py_strip text @ ''\"'') 0 # settle b @ [Sleep 2])
                else try_texts b env (Suc i) rest
            | Returns False \<Rightarrow> try_texts b env (Suc i) rest
            | Raises \<Rightarrow> try_texts b env (Suc i) rest)
      else try_texts b env (Suc i) rest)"

definition click_by_text :: "bot \<Rightarrow> edit_env \<Rightarrow> bool \<times> event list" where
  "click_by_text b env =
     (case all_texts env of
        Raises \<Rightarrow> (False, [])
      | Returns texts \<Rightarrow> try_texts b env 0 texts)"

text \<open>
  The debug artifacts, inside \<^verbatim>\<open>try: ... except: pass\<close>: the screenshot, then the page
  source written to a file; a call that raises skips what follows.
\<close>

definition save_debug :: "edit_env \<Rightarrow> event list" where
  "save_debug env =
     (if \<not> debug_screenshot_ok env then []
      else if \<not> debug_content_ok env \<or> \<not> debug_write_ok env then [Screenshot ''debug_maps.png'']
      else [Screenshot ''debug_maps.png'', WriteFile ''debug_html.html''])"

text \<open>
  What is done when nothing was found: the artifacts, the request to click by hand, and
  the wait of 45 seconds.
\<close>

definition passive_wait :: "edit_env \<Rightarrow> event list" where
  "passive_wait env =
     save_debug env @ [Print ''Please manually click Suggest an edit in the browser'', Sleep 45]"

text \<open>
  The four methods of discovery, each run only when the ones before it found nothing
  (\<^verbatim>\<open>discover\<close>), and the whole method. Both ends of the method return \<^verbatim>\<open>True\<close>; the
  outer handler, which returns \<^verbatim>\<open>False\<close>, is reached by none of the modelled calls, each
  of which has a handler of its own.
\<close>

definition discover :: "bot \<Rightarrow> edit_env \<Rightarrow> bool \<times> event list" where
  "discover b env =
     (case click_suggest_selectors b env 0 suggest_selectors of
        (True, m1) \<Rightarrow> (True, m1)
      | (False, m1) \<Rightarrow>
          (case click_panel_area b env of
             (True, m2) \<Rightarrow> (True, m1 @ m2)
           | (False, m2) \<Rightarrow>
               (case keyboard_navigation b env of
                  (True, m3) \<Rightarrow> (True, m1 @ m2 @ m3)
                | (False, m3) \<Rightarrow>
                    (case click_by_text b env of
                       (found, m4) \<Rightarrow> (found, m1 @ m2 @ m3 @ m4)))))"

definition open_suggest_edit :: "bot \<Rightarrow> edit_env \<Rightarrow> bool \<times> event list" where
  "open_suggest_edit b env =
     (case poll_panel env [0..<poll_attempts b] of
        (panel_loaded, polled) \<Rightarrow>
          (case discover b env of
             (found, tried) \<Rightarrow>
               (True,
                polled
                  @ (if \<not> panel_loaded
                     then [Print ''Location panel may not have loaded yet, continuing anyway'']
                     else [])
                  @ settle b @ tried
                  @ (if \<not> found then passive_wait env else []))))"

text \<open>The polling attempts recorded in a log.\<close>

fun probes :: "event list \<Rightarrow> nat list" where
  "probes [] = []"
| "probes (Probe k # rest) = k # probes rest"
| "probes (e # rest) = probes rest"

section \<open>Concrete browsers\<close>

text \<open>
  A browser in which every call returns and nothing is found: blank documents, no match
  for any locator. The search query is the business name.
\<close>

definition still_env :: name_env where
  "still_env =
     \<lparr>search_query = ''Coffee Shop'',
      clickables_ok = True,
      menu_page = page_untitled,
      coordinate_click_ok = (\<lambda>p i. True),
      option_count = (\<lambda>i. Returns 0),
      option_visible = (\<lambda>i idx. Returns False),
      option_click_ok = (\<lambda>i idx. True),
      poll_page = (\<lambda>k. page_untitled),
      fill_click_ok = True,
      fill_select_ok = True,
      fill_type_ok = True,
      label_click_ok = True,
      submit_page = page_untitled,
      submit_click_ok = True,
      ok_script = (\<lambda>d. Returns PNone),
      ok_page = (\<lambda>k. page_untitled),
      ok_click_ok = True,
      enter_ok = True,
      scan_page = page_untitled,
      fallback_click_ok = (\<lambda>idx. True),
      fallback_select_ok = (\<lambda>idx. True),
      fallback_type_ok = (\<lambda>idx. True),
      fallback_submit_page = (\<lambda>idx. page_untitled),
      fallback_submit_click_ok = (\<lambda>idx. True),
      screenshot_ok = True\<rparr>"

text \<open>The same browser, but the first menu selector has a visible option to click.\<close>

definition menu_only_env :: name_env where
  "menu_only_env =
     still_env\<lparr>option_count := (\<lambda>i. Returns 1), option_visible := (\<lambda>i idx. Returns True)\<rparr>"

text \<open>A document with two visible text inputs (nodes 11 and 12) and nothing else.\<close>

definition two_inputs_dom :: dom where
  "two_inputs_dom =
     blank_dom
       \<lparr>query_selector_all :=
          (\<lambda>sel. if sel = ''input, textarea, [contenteditable]'' then Returns [11, 12]
                 else if str_includes sel '':has-text('' then Raises
                 else Returns []),
        bounding_rect :=
          (\<lambda>n. if n = 11 then \<lparr>rect_x = 20, rect_y = 100, rect_width = 200, rect_height = 40\<rparr>
               else if n = 12 then \<lparr>rect_x = 20, rect_y = 160, rect_width = 200, rect_height = 40\<rparr>
               else \<lparr>rect_x = 0, rect_y = 0, rect_width = 0, rect_height = 0\<rparr>),
        property := (\<lambda>n name. if name = ''tagName'' then ''INPUT'' else [])\<rparr>"

definition page_two_inputs :: page where
  "page_two_inputs =
     \<lparr>main_frame = 0, frames = [0], document = (\<lambda>fr. Returns two_inputs_dom)\<rparr>"

text \<open>
  The menu entry is clicked, the place-name field never shows, the scan finds the two
  inputs, and no submit button is on the page.
\<close>

definition two_inputs_env :: name_env where
  "two_inputs_env = menu_only_env\<lparr>scan_page := page_two_inputs\<rparr>"

text \<open>Three menu entries: an icon, an entry of more than one character, the business.\<close>

definition coffee_menu :: "menu_item list" where
  "coffee_menu =
     [\<lparr>item_index = 0, item_text = ''x'', item_visible = True,
       item_x = 380, item_y = 20, item_class = []\<rparr>,
      \<lparr>item_index = 1, item_text = ''Hours'', item_visible = True,
       item_x = 100, item_y = 60, item_class = []\<rparr>,
      \<lparr>item_index = 2, item_text = ''Coffee Shop West'', item_visible = True,
       item_x = 100, item_y = 100, item_class = []\<rparr>]"

text \<open>Two menu entries without the business name: a web address, then the hours.\<close>

definition link_menu :: "menu_item list" where
  "link_menu =
     [\<lparr>item_index = 0, item_text = ''https://coffee.example'', item_visible = True,
       item_x = 100, item_y = 20, item_class = []\<rparr>,
      \<lparr>item_index = 1, item_text = ''Hours'', item_visible = True,
       item_x = 100, item_y = 60, item_class = []\<rparr>]"

text \<open>The menu choice in the words of the specification.\<close>

definition spec_hint_match :: "string \<Rightarrow> menu_item \<Rightarrow> bool" where
  "spec_hint_match hint item =
     (item_visible item \<and> str_includes (upper (item_text item)) (upper hint))"

definition spec_multi_char :: "menu_item \<Rightarrow> bool" where
  "spec_multi_char item = (item_visible item \<and> length (item_text item) > 1)"

definition spec_menu_choice :: "string \<Rightarrow> menu_item list \<Rightarrow> menu_item option" where
  "spec_menu_choice hint items =
     (case find (spec_hint_match hint) items of
        Some item \<Rightarrow> Some item
      | None \<Rightarrow>
          (case find spec_multi_char items of
             Some item \<Rightarrow> Some item
           | None \<Rightarrow> find has_text items))"

text \<open>An address dialog in which no locator finds anything.\<close>

definition blind_address_env :: address_env where
  "blind_address_env =
     \<lparr>address_option = (\<lambda>i. Returns False),
      address_option_click_ok = (\<lambda>i. True),
      address_input = (\<lambda>i. Returns False),
      address_input_click_ok = (\<lambda>i. True),
      address_input_clear_ok = (\<lambda>i. True),
      address_input_fill_ok = (\<lambda>i. True),
      address_submit = (\<lambda>i. Returns False),
      address_submit_click_ok = (\<lambda>i. True)\<rparr>"

text \<open>A map page on which nothing is found and every key press raises.\<close>

definition dark_env :: edit_env where
  "dark_env =
     \<lparr>panel_probe = (\<lambda>k. Returns False),
      suggest_count = (\<lambda>i. Returns 0),
      suggest_actionable = (\<lambda>i idx. Returns False),
      suggest_scroll_ok = (\<lambda>i idx. True),
      suggest_click_ok = (\<lambda>i idx. True),
      panel_box = Returns None,
      panel_click_ok = True,
      key_ok = (\<lambda>k. False),
      all_texts = Returns [],
      text_present = (\<lambda>i. Returns False),
      text_click_ok = (\<lambda>i. True),
      debug_screenshot_ok = True,
      debug_content_ok = True,
      debug_write_ok = True\<rparr>"

text \<open>The bot started with \<^verbatim>\<open>--panel-wait 0\<close>.\<close>

definition zero_wait_bot :: bot where
  "zero_wait_bot = default_bot\<lparr>panel_wait_seconds := 0\<rparr>"

section \<open>Theorems\<close>

subsection \<open>The frame evaluator\<close>

lemma child_frames_loop_none:
  "(\<And>fr r. fr \<in> set frs \<Longrightarrow> frame_evaluate pg fr js = Returns r \<Longrightarrow> \<not> truthy r)
   \<Longrightarrow> child_frames_loop pg js frs = (PNone, None)"
  by (induction frs) (auto split: outcome.splits)

lemma child_frames_loop_skips_raising:
  "frame_evaluate pg fr js = Raises
   \<Longrightarrow> child_frames_loop pg js (fr # rest) = child_frames_loop pg js rest"
  by simp

lemma child_frames_loop_not_main:
  "child_frames_loop pg js frs = (r, Some fr) \<Longrightarrow> fr \<noteq> main_frame pg"
  by (induction frs) (auto split: outcome.splits if_splits)

lemma child_frames_loop_first:
  "child_frames_loop pg js frs =
     (case find (\<lambda>fr. fr \<noteq> main_frame pg \<and>
                      (case frame_evaluate pg fr js of Raises \<Rightarrow> False | Returns r \<Rightarrow> truthy r)) frs of
        None \<Rightarrow> (PNone, None)
      | Some fr \<Rightarrow> (case frame_evaluate pg fr js of Raises \<Rightarrow> (PNone, None) | Returns r \<Rightarrow> (r, Some fr)))"
  by (induction frs) (auto split: outcome.splits)

lemma child_frames_loop_filter:
  "child_frames_loop pg js frs
     = child_frames_loop pg js (filter (\<lambda>f. f \<noteq> main_frame pg) frs)"
  by (induction frs) (auto split: outcome.splits)

lemma child_frames_loop_skip:
  "\<forall>f \<in> set skipped. \<not> yields pg js f
   \<Longrightarrow> child_frames_loop pg js (skipped @ rest) = child_frames_loop pg js rest"
  by (induction skipped) (auto simp: yields_def split: outcome.splits)

lemma evaluate_in_all_frames_visit:
  assumes order: "visit_order pg = skipped @ fr # later"
    and skipped: "\<forall>f \<in> set skipped. \<not> yields pg js f"
    and result: "frame_evaluate pg fr js = Returns v" "truthy v"
  shows "evaluate_in_all_frames pg js = (v, Some fr)"
proof (cases skipped)
  case Nil
  with order have "fr = main_frame pg"
    by (simp add: visit_order_def)
  with result show ?thesis
    by (simp add: evaluate_in_all_frames_def)
next
  case (Cons a others)
  with order have a: "a = main_frame pg"
    by (simp add: visit_order_def)
  from order Cons have children:
    "filter (\<lambda>f. f \<noteq> main_frame pg) (frames pg) = others @ fr # later"
    by (auto simp: visit_order_def)
  from children have "fr \<in> set (filter (\<lambda>f. f \<noteq> main_frame pg) (frames pg))"
    by simp
  then have not_main: "fr \<noteq> main_frame pg"
    by simp
  from skipped Cons a have main: "\<not> yields pg js (main_frame pg)"
    and others: "\<forall>f \<in> set others. \<not> yields pg js f"
    by simp_all
  from main have "evaluate_in_all_frames pg js = child_frames_loop pg js (frames pg)"
    by (auto simp: evaluate_in_all_frames_def yields_def split: outcome.splits)
  also have "\<dots> = child_frames_loop pg js (others @ fr # later)"
    using child_frames_loop_filter [of pg js "frames pg"] children by simp
  also have "\<dots> = child_frames_loop pg js (fr # later)"
    using others by (rule child_frames_loop_skip)
  also have "\<dots> = (v, Some fr)"
    using not_main result by simp
  finally show ?thesis .
qed

text \<open>
  Claim C4. \<^verbatim>\<open>_evaluate_in_all_frames\<close> returns the main frame's result, with the main
  frame as owner, whenever the main frame yields a truthy result (so no child frame's
  result is returned then). Otherwise the frames are asked in the order of
  \<^verbatim>\<open>page.frames\<close>: a frame whose evaluation raises is treated like one without a result
  and the loop goes on with the next frame, and the result of the first frame that
  returns a truthy value is returned with that frame as owner. When no frame yields a
  truthy result the value is \<^verbatim>\<open>(None, None)\<close>. The model is a total function: no path
  raises to the caller.
\<close>

theorem evaluate_in_all_frames_main_first:
  "(frame_evaluate pg (main_frame pg) js = Returns r \<and> truthy r
      \<longrightarrow> evaluate_in_all_frames pg js = (r, Some (main_frame pg)))
   \<and> (visit_order pg = skipped @ fr # later
        \<and> (\<forall>f \<in> set skipped.
              frame_evaluate pg f js = Raises
              \<or> (\<exists>u. frame_evaluate pg f js = Returns u \<and> \<not> truthy u))
        \<and> frame_evaluate pg fr js = Returns v \<and> truthy v
      \<longrightarrow> evaluate_in_all_frames pg js = (v, Some fr))
   \<and> ((\<forall>f \<in> set (main_frame pg # frames pg). \<forall>v. frame_evaluate pg f js = Returns v \<longrightarrow> \<not> truthy v)
      \<longrightarrow> evaluate_in_all_frames pg js = (PNone, None))"
proof (intro conjI impI)
  assume "frame_evaluate pg (main_frame pg) js = Returns r \<and> truthy r"
  then show "evaluate_in_all_frames pg js = (r, Some (main_frame pg))"
    by (simp add: evaluate_in_all_frames_def)
next
  assume a: "visit_order pg = skipped @ fr # later
        \<and> (\<forall>f \<in> set skipped.
              frame_evaluate pg f js = Raises
              \<or> (\<exists>u. frame_evaluate pg f js = Returns u \<and> \<not> truthy u))
        \<and> frame_evaluate pg fr js = Returns v \<and> truthy v"
  then have "\<forall>f \<in> set skipped. \<not> yields pg js f"
    by (auto simp: yields_def)
  with a show "evaluate_in_all_frames pg js = (v, Some fr)"
    by (intro evaluate_in_all_frames_visit [of pg skipped fr later]) simp_all
next
  assume none: "\<forall>f \<in> set (main_frame pg # frames pg). \<forall>v. frame_evaluate pg f js = Returns v \<longrightarrow> \<not> truthy v"
  then have "child_frames_loop pg js (frames pg) = (PNone, None)"
    by (intro child_frames_loop_none) auto
  with none show "evaluate_in_all_frames pg js = (PNone, None)"
    by (auto simp: evaluate_in_all_frames_def split: outcome.splits)
qed

theorem evaluate_in_all_frames_main_first_witness:
  "evaluate_in_all_frames page_main_titled title_script = (PStr ''Main'', Some 0)
   \<and> evaluate_in_all_frames page_child_titled title_script = (PStr ''Third'', Some 3)
   \<and> evaluate_in_all_frames page_untitled title_script = (PNone, None)"
proof -
  have main: "frame_evaluate page_main_titled (main_frame page_main_titled) title_script = Returns (PStr ''Main'')
              \<and> truthy (PStr ''Main'')"
    by (simp add: frame_evaluate_def page_main_titled_def title_script_def titled_dom_def blank_dom_def)
  have order: "visit_order page_child_titled = [0, 1, 2] @ 3 # [4]"
    by (simp add: visit_order_def page_child_titled_def)
  have skipped: "\<forall>f \<in> set [0, 1, 2].
              frame_evaluate page_child_titled f title_script = Raises
              \<or> (\<exists>u. frame_evaluate page_child_titled f title_script = Returns u \<and> \<not> truthy u)"
    by (simp add: frame_evaluate_def page_child_titled_def title_script_def blank_dom_def)
  have third: "frame_evaluate page_child_titled 3 title_script = Returns (PStr ''Third'')
               \<and> truthy (PStr ''Third'')"
    by (simp add: frame_evaluate_def page_child_titled_def title_script_def titled_dom_def blank_dom_def)
  have none: "\<forall>f \<in> set (main_frame page_untitled # frames page_untitled).
                \<forall>v. frame_evaluate page_untitled f title_script = Returns v \<longrightarrow> \<not> truthy v"
    by (auto simp: frame_evaluate_def page_untitled_def title_script_def blank_dom_def)
  note first = evaluate_in_all_frames_main_first
      [where pg = page_main_titled and js = title_script and r = "PStr ''Main''"]
  note second = evaluate_in_all_frames_main_first
      [where pg = page_child_titled and js = title_script and skipped = "[0, 1, 2]"
         and fr = 3 and later = "[4]" and v = "PStr ''Third''"]
  note third_part = evaluate_in_all_frames_main_first
      [where pg = page_untitled and js = title_script]
  from main first have "evaluate_in_all_frames page_main_titled title_script
                          = (PStr ''Main'', Some (main_frame page_main_titled))"
    by blast
  moreover from order skipped third second
  have "evaluate_in_all_frames page_child_titled title_script = (PStr ''Third'', Some 3)"
    by blast
  moreover from none third_part
  have "evaluate_in_all_frames page_untitled title_script = (PNone, None)"
    by blast
  ultimately show ?thesis
    by (simp add: page_main_titled_def)
qed

subsection \<open>The suppression flag around a click\<close>

lemma flag_script_sets: "flag_script pg tr v fr st fr = v"
  by (simp add: flag_script_def Let_def)

lemma flag_script_keeps: "st f = v \<Longrightarrow> flag_script pg tr v fr st f = v"
  by (auto simp: flag_script_def Let_def)

lemma set_flag_in_frame_sets:
  "document pg fr \<noteq> Raises \<Longrightarrow> set_flag_in_frame pg tr v st fr fr = v"
  by (cases "document pg fr") (simp_all add: set_flag_in_frame_def flag_script_sets)

lemma set_flag_in_frame_keeps: "st f = v \<Longrightarrow> set_flag_in_frame pg tr v st fr f = v"
  by (cases "document pg fr") (simp_all add: set_flag_in_frame_def flag_script_keeps)

lemma foldl_set_flag_keeps:
  "st f = v \<Longrightarrow> foldl (set_flag_in_frame pg tr v) st frs f = v"
  by (induction frs arbitrary: st) (simp_all add: set_flag_in_frame_keeps)

lemma foldl_set_flag_sets:
  "fr \<in> set frs \<Longrightarrow> document pg fr \<noteq> Raises
   \<Longrightarrow> foldl (set_flag_in_frame pg tr v) st frs fr = v"
proof (induction frs arbitrary: st)
  case Nil
  then show ?case by simp
next
  case (Cons a frs)
  show ?case
  proof (cases "fr = a")
    case True
    with Cons.prems show ?thesis
      by (simp add: foldl_set_flag_keeps set_flag_in_frame_sets)
  next
    case False
    with Cons show ?thesis by simp
  qed
qed

lemma set_bot_clicking_reaches_frame:
  assumes "fr \<in> set (main_frame pg # frames pg)" and "document pg fr \<noteq> Raises"
  shows "set_bot_clicking_for_all_frames pg tr v st fr = v"
proof (cases "fr = main_frame pg")
  case True
  with assms(2) show ?thesis
    by (simp add: set_bot_clicking_for_all_frames_def foldl_set_flag_keeps set_flag_in_frame_sets)
next
  case False
  with assms show ?thesis
    by (simp add: set_bot_clicking_for_all_frames_def foldl_set_flag_sets)
qed

text \<open>
  Claim C2. In every run of \<^verbatim>\<open>_click_xy_in_frame\<close>, whether the click returns or
  raises, the flag \<^verbatim>\<open>__botClicking\<close> is true in every reachable frame (every frame of
  the page that accepts the evaluation) when the click is dispatched, and false in every
  reachable frame when the method is left: the clearing step of the \<^verbatim>\<open>finally\<close> block
  always runs. Setting the flag never raises: the method is left by an exception only
  when the click itself raised.
\<close>

theorem click_flag_set_before_and_cleared_after:
  "(\<forall>fr \<in> set (main_frame pg # frames pg).
      document pg fr \<noteq> Raises \<longrightarrow> flags_at_click (click_xy_in_frame b tr pg click_ok pg' st) fr)
   \<and> (\<forall>fr \<in> set (main_frame pg' # frames pg').
      document pg' fr \<noteq> Raises \<longrightarrow> \<not> flags_after (click_xy_in_frame b tr pg click_ok pg' st) fr)
   \<and> click_raised (click_xy_in_frame b tr pg click_ok pg' st) = (\<not> click_ok)"
proof (intro conjI ballI impI)
  fix fr
  assume "fr \<in> set (main_frame pg # frames pg)" and "document pg fr \<noteq> Raises"
  then have "set_bot_clicking_for_all_frames pg tr True st fr = True"
    by (rule set_bot_clicking_reaches_frame)
  then show "flags_at_click (click_xy_in_frame b tr pg click_ok pg' st) fr"
    by (simp add: click_xy_in_frame_def Let_def)
next
  fix fr
  assume "fr \<in> set (main_frame pg' # frames pg')" and "document pg' fr \<noteq> Raises"
  then have "set_bot_clicking_for_all_frames pg' tr False
               (set_bot_clicking_for_all_frames pg tr True st) fr = False"
    by (rule set_bot_clicking_reaches_frame)
  then show "\<not> flags_after (click_xy_in_frame b tr pg click_ok pg' st) fr"
    by (simp add: click_xy_in_frame_def Let_def)
next
  show "click_raised (click_xy_in_frame b tr pg click_ok pg' st) = (\<not> click_ok)"
    by (simp add: click_xy_in_frame_def Let_def)
qed

theorem click_flag_set_before_and_cleared_after_witness:
  "flags_at_click (click_xy_in_frame default_bot flat_tree page_main_titled False page_untitled no_flags) 2
   \<and> \<not> flags_after (click_xy_in_frame default_bot flat_tree page_main_titled False page_untitled no_flags) 2
   \<and> click_raised (click_xy_in_frame default_bot flat_tree page_main_titled False page_untitled no_flags)"
proof -
  have a: "2 \<in> set (main_frame page_main_titled # frames page_main_titled)"
    and b: "document page_main_titled 2 \<noteq> Raises"
    by (simp_all add: page_main_titled_def)
  have c: "2 \<in> set (main_frame page_untitled # frames page_untitled)"
    and d: "document page_untitled 2 \<noteq> Raises"
    by (simp_all add: page_untitled_def)
  from a b c d
    click_flag_set_before_and_cleared_after
      [of page_main_titled default_bot flat_tree False page_untitled no_flags]
  show ?thesis by blast
qed

text \<open>
  Claim C3, as stated, fails: with the default delay of half a second and a click that
  returns, the flag of the main frame is already false while the delay runs.
\<close>

theorem flag_during_delay_counterexample:
  "delay_flag (click_xy_in_frame default_bot flat_tree page_main_titled True page_main_titled no_flags) 0
     = Some False"
  by (simp add: delay_flag_def click_xy_in_frame_def Let_def default_bot_def
      set_bot_clicking_for_all_frames_def set_flag_in_frame_def flag_script_def
      page_main_titled_def flat_tree_def no_flags_def)

text \<open>
  Claim C3, amended. The flag is cleared by the \<^verbatim>\<open>finally\<close> block as soon as the click
  returns, before the settle delay: the method sleeps exactly when the click returned and
  \<^verbatim>\<open>click_delay\<close> is positive, and during that sleep the flag is false in every reachable
  frame (the store is already the one with which the method is left).
\<close>

theorem flag_cleared_before_settle_delay:
  "(flags_at_delay (click_xy_in_frame b tr pg click_ok pg' st) \<noteq> None)
      = (click_ok \<and> click_delay b > 0)
   \<and> (\<forall>st'. flags_at_delay (click_xy_in_frame b tr pg click_ok pg' st) = Some st' \<longrightarrow>
         st' = flags_after (click_xy_in_frame b tr pg click_ok pg' st)
         \<and> (\<forall>fr \<in> set (main_frame pg' # frames pg'). document pg' fr \<noteq> Raises \<longrightarrow> \<not> st' fr))"
proof (intro conjI allI impI)
  show "(flags_at_delay (click_xy_in_frame b tr pg click_ok pg' st) \<noteq> None)
          = (click_ok \<and> click_delay b > 0)"
    by (auto simp: click_xy_in_frame_def Let_def)
next
  fix st'
  assume "flags_at_delay (click_xy_in_frame b tr pg click_ok pg' st) = Some st'"
  then show "st' = flags_after (click_xy_in_frame b tr pg click_ok pg' st)"
    by (simp add: click_xy_in_frame_def Let_def split: if_splits)
next
  fix st'
  assume "flags_at_delay (click_xy_in_frame b tr pg click_ok pg' st) = Some st'"
  then have st': "st' = set_bot_clicking_for_all_frames pg' tr False
                         (set_bot_clicking_for_all_frames pg tr True st)"
    by (simp add: click_xy_in_frame_def Let_def split: if_splits)
  show "\<forall>fr \<in> set (main_frame pg' # frames pg'). document pg' fr \<noteq> Raises \<longrightarrow> \<not> st' fr"
  proof (intro ballI impI)
    fix fr
    assume "fr \<in> set (main_frame pg' # frames pg')" and "document pg' fr \<noteq> Raises"
    then have "set_bot_clicking_for_all_frames pg' tr False
                 (set_bot_clicking_for_all_frames pg tr True st) fr = False"
      by (rule set_bot_clicking_reaches_frame)
    with st' show "\<not> st' fr" by simp
  qed
qed

theorem flag_cleared_before_settle_delay_witness:
  "flags_at_delay (click_xy_in_frame default_bot flat_tree page_main_titled True page_untitled no_flags)
     = Some (flags_after (click_xy_in_frame default_bot flat_tree page_main_titled True page_untitled no_flags))
   \<and> \<not> flags_after (click_xy_in_frame default_bot flat_tree page_main_titled True page_untitled no_flags) 2"
proof -
  have delay: "click_delay default_bot > 0"
    by (simp add: default_bot_def)
  have c: "2 \<in> set (main_frame page_untitled # frames page_untitled)"
    and d: "document page_untitled 2 \<noteq> Raises"
    by (simp_all add: page_untitled_def)
  from delay c d
    flag_cleared_before_settle_delay
      [of default_bot flat_tree page_main_titled True page_untitled no_flags]
  show ?thesis by (metis option.exhaust)
qed

subsection \<open>The selector cascades\<close>

lemma place_name_selector_loop_passes:
  "list_all (first_match_hidden d) pre
   \<Longrightarrow> place_name_selector_loop d (pre @ rest) = place_name_selector_loop d rest"
  by (induction pre)
     (auto simp: first_match_hidden_def query_selector_def split: outcome.splits list.splits)

lemma submit_nodes_loop_find:
  "submit_nodes_loop d nodes = map_option (submit_hit d) (find (submit_candidate d) nodes)"
  by (induction nodes)
     (auto simp: submit_candidate_def submit_hit_def submit_like_def)

lemma find_submit_button_passes:
  "list_all (no_submit_candidate d) pre
   \<Longrightarrow> find_submit_button (pre @ rest) d = find_submit_button rest d"
  by (induction pre)
     (auto simp: no_submit_candidate_def submit_nodes_loop_find split: outcome.splits)

text \<open>
  With the selectors of \<^verbatim>\<open>__init__\<close>, a document in which the first three submit
  selectors find nothing makes the script raise at the fourth one, which is written in
  Playwright's selector dialect; the later candidates are not tried.
\<close>

lemma find_submit_button_rejected_selector:
  "find_submit_button (submit_selectors default_bot) blank_dom = Raises"
  by (simp add: default_bot_def blank_dom_def)

text \<open>
  Claim C1, as stated, fails on the place-name cascade. In \<^verbatim>\<open>shadowed_form\<close> the
  lowest-index candidate with a visible match is the class selector, whose first visible
  match is node 2, but the script returns node 3, the match of a later candidate. And on
  \<^verbatim>\<open>page_two_forms\<close> the first candidate of the list has a visible match in the child
  frame (node 21 of \<^verbatim>\<open>id_form\<close>), but the match of the last candidate in the main frame
  is returned: the whole cascade runs in the main frame before any child frame is asked.
\<close>

theorem cascade_lowest_visible_counterexample:
  "spec_cascade shadowed_form (place_name_selectors default_bot) = Some 2
   \<and> find_place_name_input (place_name_selectors default_bot) shadowed_form
       = Returns (captured_hit shadowed_form 3)
   \<and> captured_hit shadowed_form 3 \<noteq> captured_hit shadowed_form 2
   \<and> spec_cascade id_form (place_name_selectors default_bot) = Some 21
   \<and> evaluate_in_all_frames page_two_forms (find_place_name_input (place_name_selectors default_bot))
       = (captured_hit shadowed_form 3, Some 0)"
  by (simp add: default_bot_def shadowed_form_def id_form_def blank_dom_def visible_matches_def
      find_place_name_input_def query_selector_def is_visible_def captured_hit_def
      center_x_def center_y_def evaluate_in_all_frames_def frame_evaluate_def
      page_two_forms_def)

text \<open>
  Claim C1, amended. Each cascade is one script, run by \<^verbatim>\<open>_evaluate_in_all_frames\<close> on the
  main frame first and then on the child frames in the order of \<^verbatim>\<open>page.frames\<close>; the
  result comes from the first frame whose document yields one. Within that document the
  script returns the match of the lowest-index candidate that it accepts, never a later
  candidate's. The place-name cascade looks at the first match of each candidate only: it
  accepts the first candidate whose first match in document order is visible and returns
  that match. The submit cascade accepts the first candidate that has a visible match
  whose text contains "submit" or "send" and returns the first such match in document
  order. (The candidates passed over are selectors that the browser accepts.)
\<close>

theorem cascade_returns_first_accepted_candidate:
  "(list_all (first_match_hidden d) pre
      \<and> query_selector_all d sel = Returns (n # ns) \<and> is_visible (bounding_rect d n)
      \<longrightarrow> find_place_name_input (pre @ sel # post) d = Returns (captured_hit d n)
        \<and> (visit_order pg = skipped @ fr # later
             \<and> (\<forall>f \<in> set skipped. \<not> yields pg (find_place_name_input (pre @ sel # post)) f)
             \<and> document pg fr = Returns d
            \<longrightarrow> evaluate_in_all_frames pg (find_place_name_input (pre @ sel # post))
                  = (captured_hit d n, Some fr)))
   \<and> (list_all (no_submit_candidate d) pre
      \<and> query_selector_all d sel = Returns ms \<and> find (submit_candidate d) ms = Some m
      \<longrightarrow> find_submit_button (pre @ sel # post) d = Returns (submit_hit d m)
        \<and> (visit_order pg = skipped @ fr # later
             \<and> (\<forall>f \<in> set skipped. \<not> yields pg (find_submit_button (pre @ sel # post)) f)
             \<and> document pg fr = Returns d
            \<longrightarrow> evaluate_in_all_frames pg (find_submit_button (pre @ sel # post))
                  = (submit_hit d m, Some fr)))"
proof (intro conjI impI)
  assume a: "list_all (first_match_hidden d) pre
             \<and> query_selector_all d sel = Returns (n # ns) \<and> is_visible (bounding_rect d n)"
  then have "place_name_selector_loop d (pre @ sel # post) = place_name_selector_loop d (sel # post)"
    by (simp add: place_name_selector_loop_passes)
  also from a have "\<dots> = Returns (Some (captured_hit d n))"
    by (simp add: query_selector_def)
  finally show in_document:
    "find_place_name_input (pre @ sel # post) d = Returns (captured_hit d n)"
    by (simp add: find_place_name_input_def)
  assume b: "visit_order pg = skipped @ fr # later
             \<and> (\<forall>f \<in> set skipped. \<not> yields pg (find_place_name_input (pre @ sel # post)) f)
             \<and> document pg fr = Returns d"
  with in_document
  have "frame_evaluate pg fr (find_place_name_input (pre @ sel # post)) = Returns (captured_hit d n)"
    by (simp add: frame_evaluate_def)
  moreover have "truthy (captured_hit d n)"
    by (simp add: captured_hit_def)
  ultimately show "evaluate_in_all_frames pg (find_place_name_input (pre @ sel # post))
                  = (captured_hit d n, Some fr)"
    using b by (intro evaluate_in_all_frames_visit [of pg skipped fr later]) simp_all
next
  assume a: "list_all (no_submit_candidate d) pre
             \<and> query_selector_all d sel = Returns ms \<and> find (submit_candidate d) ms = Some m"
  then have "find_submit_button (pre @ sel # post) d = find_submit_button (sel # post) d"
    by (simp add: find_submit_button_passes)
  also from a have "\<dots> = Returns (submit_hit d m)"
    by (simp add: submit_nodes_loop_find)
  finally show in_document: "find_submit_button (pre @ sel # post) d = Returns (submit_hit d m)" .
  assume b: "visit_order pg = skipped @ fr # later
             \<and> (\<forall>f \<in> set skipped. \<not> yields pg (find_submit_button (pre @ sel # post)) f)
             \<and> document pg fr = Returns d"
  with in_document
  have "frame_evaluate pg fr (find_submit_button (pre @ sel # post)) = Returns (submit_hit d m)"
    by (simp add: frame_evaluate_def)
  moreover have "truthy (submit_hit d m)"
    by (simp add: submit_hit_def exact_hit_def ancestor_hit_def)
  ultimately show "evaluate_in_all_frames pg (find_submit_button (pre @ sel # post))
                  = (submit_hit d m, Some fr)"
    using b by (intro evaluate_in_all_frames_visit [of pg skipped fr later]) simp_all
qed

theorem cascade_returns_first_accepted_candidate_witness:
  "find_place_name_input (place_name_selectors default_bot) shadowed_form
     = Returns (captured_hit shadowed_form 3)
   \<and> evaluate_in_all_frames (page_form_in_child shadowed_form)
        (find_place_name_input (place_name_selectors default_bot))
     = (captured_hit shadowed_form 3, Some 2)
   \<and> find_submit_button (submit_selectors default_bot) two_submit_form
     = Returns (submit_hit two_submit_form 5)
   \<and> evaluate_in_all_frames (page_form_in_child two_submit_form)
        (find_submit_button (submit_selectors default_bot))
     = (submit_hit two_submit_form 5, Some 2)"
proof -
  have names: "take 6 (place_name_selectors default_bot)
                 @ (place_name_selectors default_bot ! 6) # []
               = place_name_selectors default_bot"
    by (simp add: default_bot_def)
  have submits: "take 1 (submit_selectors default_bot)
                   @ (submit_selectors default_bot ! 1) # drop 2 (submit_selectors default_bot)
                 = submit_selectors default_bot"
    by (simp add: default_bot_def)
  have a: "list_all (first_match_hidden shadowed_form) (take 6 (place_name_selectors default_bot))"
    by (simp add: default_bot_def first_match_hidden_def shadowed_form_def blank_dom_def
        is_visible_def)
  have b: "query_selector_all shadowed_form (place_name_selectors default_bot ! 6) = Returns (3 # [])"
    by (simp add: default_bot_def shadowed_form_def)
  have c: "is_visible (bounding_rect shadowed_form 3)"
    by (simp add: shadowed_form_def is_visible_def)
  have e: "list_all (no_submit_candidate two_submit_form) (take 1 (submit_selectors default_bot))"
    by (simp add: default_bot_def no_submit_candidate_def two_submit_form_def)
  have f: "query_selector_all two_submit_form (submit_selectors default_bot ! 1) = Returns [5, 6]"
    by (simp add: default_bot_def two_submit_form_def)
  have g: "find (submit_candidate two_submit_form) [5, 6] = Some 5"
    by (simp add: submit_candidate_def two_submit_form_def blank_dom_def is_visible_def
        submit_like_def node_text_def str_or_def js_trim_def js_space_def lower_def
        to_lower_char_def)
  have order: "visit_order (page_form_in_child form) = [0, 1] @ 2 # []" for form
    by (simp add: visit_order_def page_form_in_child_def)
  have doc: "document (page_form_in_child form) 2 = Returns form" for form
    by (simp add: page_form_in_child_def)
  have blank_names: "find_place_name_input (place_name_selectors default_bot) blank_dom = Returns PNone"
    by (simp add: find_place_name_input_def default_bot_def blank_dom_def query_selector_def)
  have blank_submits: "find_submit_button (submit_selectors default_bot) blank_dom = Raises"
    by (simp add: default_bot_def blank_dom_def)
  have skip_names: "\<forall>f \<in> set [0, 1]. \<not> yields (page_form_in_child shadowed_form)
        (find_place_name_input (take 6 (place_name_selectors default_bot)
           @ (place_name_selectors default_bot ! 6) # [])) f"
    unfolding names
    by (simp add: yields_def frame_evaluate_def page_form_in_child_def blank_names)
  have skip_submits: "\<forall>f \<in> set [0, 1]. \<not> yields (page_form_in_child two_submit_form)
        (find_submit_button (take 1 (submit_selectors default_bot)
           @ (submit_selectors default_bot ! 1) # drop 2 (submit_selectors default_bot))) f"
    unfolding submits
    by (simp add: yields_def frame_evaluate_def page_form_in_child_def blank_submits)
  note first = cascade_returns_first_accepted_candidate
      [where d = shadowed_form and pre = "take 6 (place_name_selectors default_bot)"
         and sel = "place_name_selectors default_bot ! 6" and n = 3 and ns = "[]" and post = "[]"
         and pg = "page_form_in_child shadowed_form" and skipped = "[0, 1]" and fr = 2
         and later = "[]"]
  note second = cascade_returns_first_accepted_candidate
      [where d = two_submit_form and pre = "take 1 (submit_selectors default_bot)"
         and sel = "submit_selectors default_bot ! 1" and ms = "[5, 6]" and m = 5
         and post = "drop 2 (submit_selectors default_bot)"
         and pg = "page_form_in_child two_submit_form" and skipped = "[0, 1]" and fr = 2
         and later = "[]"]
  from a b c order [of shadowed_form] doc [of shadowed_form] skip_names first
  have "find_place_name_input
          (take 6 (place_name_selectors default_bot) @ (place_name_selectors default_bot ! 6) # [])
          shadowed_form = Returns (captured_hit shadowed_form 3)
        \<and> evaluate_in_all_frames (page_form_in_child shadowed_form)
            (find_place_name_input
               (take 6 (place_name_selectors default_bot)
                  @ (place_name_selectors default_bot ! 6) # []))
          = (captured_hit shadowed_form 3, Some 2)"
    by blast
  moreover
  from e f g order [of two_submit_form] doc [of two_submit_form] skip_submits second
  have "find_submit_button
          (take 1 (submit_selectors default_bot) @ (submit_selectors default_bot ! 1)
             # drop 2 (submit_selectors default_bot))
          two_submit_form = Returns (submit_hit two_submit_form 5)
        \<and> evaluate_in_all_frames (page_form_in_child two_submit_form)
            (find_submit_button
               (take 1 (submit_selectors default_bot) @ (submit_selectors default_bot ! 1)
                  # drop 2 (submit_selectors default_bot)))
          = (submit_hit two_submit_form 5, Some 2)"
    by blast
  ultimately show ?thesis
    unfolding names submits by simp
qed

subsection \<open>The submit control\<close>




subsection \<open>The menu entry\<close>

lemma click_pass_all_ok:
  "(\<And>k. ok k) \<Longrightarrow>
   click_pass b wanted ok i items =
     (case find wanted items of
        None \<Rightarrow> (False, [])
      | Some item \<Rightarrow> (True, MouseClick (item_x item) (item_y item) # settle b @ [Sleep 2]))"
  by (induction items arbitrary: i) auto

text \<open>
  Claim C6, as stated, fails: with no entry naming the business, the first visible entry
  of more than one character in \<^verbatim>\<open>link_menu\<close> is the web address, but the bot clicks the
  entry after it.
\<close>

theorem menu_first_multi_char_counterexample:
  "spec_menu_choice (search_query still_env) link_menu = Some (link_menu ! 0)
   \<and> click_by_coordinates default_bot still_env link_menu
       = (True, [MouseClick (item_x (link_menu ! 1)) (item_y (link_menu ! 1)), Sleep (1 / 2), Sleep 2])
   \<and> (item_x (link_menu ! 1), item_y (link_menu ! 1)) \<noteq> (item_x (link_menu ! 0), item_y (link_menu ! 0))"
  by (simp add: spec_menu_choice_def spec_hint_match_def spec_multi_char_def link_menu_def
      still_env_def default_bot_def click_by_coordinates_def names_business_def meaningful_def
      clean_text_def py_strip_def py_isspace_def py_isprintable_def upper_def lower_def
      to_upper_char_def to_lower_char_def settle_def Let_def)

text \<open>
  Claim C6, amended. When the coordinate clicks return, the entry clicked among the
  listed ones (the first ten clickable elements) is: the first visible entry whose
  text, stripped, upper-cased and cleaned of non-printable characters and of whitespace
  other than spaces, contains the non-empty upper-cased search query, even when entries
  without the name come before it; without such an entry, the first visible entry whose
  stripped text has more than one character and does not contain "http" in any case;
  without that, the first visible entry with any text; otherwise none.
\<close>

theorem menu_entry_priority:
  "(\<forall>p i. coordinate_click_ok env p i) \<Longrightarrow>
   click_by_coordinates b env items =
     (case find (names_business (upper (search_query env))) items of
        Some item \<Rightarrow> (True, MouseClick (item_x item) (item_y item) # settle b @ [Sleep 2])
      | None \<Rightarrow>
          (case find meaningful items of
             Some item \<Rightarrow> (True, MouseClick (item_x item) (item_y item) # settle b @ [Sleep 2])
           | None \<Rightarrow>
               (case find has_text items of
                  Some item \<Rightarrow> (True, MouseClick (item_x item) (item_y item) # settle b @ [Sleep 2])
                | None \<Rightarrow> (False, []))))"
proof -
  assume ok: "\<forall>p i. coordinate_click_ok env p i"
  have empty: "items = [] \<Longrightarrow> find has_text items = None"
    by simp
  from ok show ?thesis
    by (auto simp: click_by_coordinates_def Let_def click_pass_all_ok empty
        split: option.splits)
qed

theorem menu_entry_priority_witness:
  "click_by_coordinates default_bot still_env coffee_menu
     = (True, [MouseClick 100 100, Sleep (1 / 2), Sleep 2])"
proof -
  have ok: "\<forall>p i. coordinate_click_ok still_env p i"
    by (simp add: still_env_def)
  have named: "find (names_business (upper (search_query still_env))) coffee_menu
               = Some (coffee_menu ! 2)"
    by (simp add: coffee_menu_def still_env_def names_business_def clean_text_def
        py_strip_def py_isspace_def py_isprintable_def upper_def to_upper_char_def)
  from menu_entry_priority [OF ok, of default_bot coffee_menu] named
  show ?thesis
    by (simp add: coffee_menu_def settle_def default_bot_def)
qed

subsection \<open>Opening the edit dialog\<close>

lemma probes_append: "probes (xs @ ys) = probes xs @ probes ys"
  by (induction xs rule: probes.induct) simp_all

lemma probes_settle: "probes (settle b) = []"
  by (simp add: settle_def)

lemma after_eq: "after before r = (fst r, before @ snd r)"
  by (cases r) simp

lemma probes_poll_panel: "length (probes (snd (poll_panel env ks))) \<le> length ks"
  by (induction ks) (auto simp: after_eq split: outcome.splits bool.splits)

lemma probes_try_matches: "probes (snd (try_matches b env i sel idxs)) = []"
  by (induction idxs) (auto simp: after_eq probes_settle split: outcome.splits bool.splits)

lemma probes_click_suggest_selectors: "probes (snd (click_suggest_selectors b env i sels)) = []"
proof (induction sels arbitrary: i)
  case Nil
  then show ?case by simp
next
  case (Cons sel sels)
  show ?case
  proof (cases "suggest_count env i")
    case Raises
    with Cons show ?thesis by simp
  next
    case (Returns count)
    obtain r tried where t: "try_matches b env i sel [0..<min count 3] = (r, tried)"
      by (cases "try_matches b env i sel [0..<min count 3]")
    with probes_try_matches [of b env i sel "[0..<min count 3]"]
    have "probes tried = []" by simp
    with Returns t Cons show ?thesis
      by (cases r) (simp_all add: after_eq probes_append)
  qed
qed

lemma probes_click_panel_area: "probes (snd (click_panel_area b env)) = []"
  by (auto simp: click_panel_area_def probes_settle split: outcome.splits option.splits)

lemma probes_press_tabs: "probes (snd (press_tabs env ks)) = []"
  by (induction ks) (auto simp: after_eq)

lemma probes_keyboard_navigation: "probes (snd (keyboard_navigation b env)) = []"
proof -
  obtain r tabs where t: "press_tabs env [0..<5] = (r, tabs)"
    by (cases "press_tabs env [0..<5]")
  with probes_press_tabs [of env "[0..<5]"] have "probes tabs = []" by simp
  with t show ?thesis
    by (cases r) (simp_all add: keyboard_navigation_def probes_append probes_settle)
qed

lemma probes_try_texts: "probes (snd (try_texts b env i texts)) = []"
  by (induction texts arbitrary: i)
     (auto simp: probes_append probes_settle split: outcome.splits bool.splits)

lemma probes_click_by_text: "probes (snd (click_by_text b env)) = []"
  by (auto simp: click_by_text_def probes_try_texts split: outcome.splits)

lemma probes_passive_wait: "probes (passive_wait env) = []"
  by (simp add: passive_wait_def save_debug_def)

lemma discover_eq:
  "discover b env =
     (let m1 = click_suggest_selectors b env 0 suggest_selectors;
          m2 = click_panel_area b env;
          m3 = keyboard_navigation b env;
          m4 = click_by_text b env
      in if fst m1 then m1
         else if fst m2 then (True, snd m1 @ snd m2)
         else if fst m3 then (True, snd m1 @ snd m2 @ snd m3)
         else (fst m4, snd m1 @ snd m2 @ snd m3 @ snd m4))"
  by (simp add: discover_def Let_def split: prod.splits bool.splits)

lemma probes_discover: "probes (snd (discover b env)) = []"
  by (simp add: discover_eq Let_def probes_append probes_click_suggest_selectors
      probes_click_panel_area probes_keyboard_navigation probes_click_by_text)

lemma open_suggest_edit_eq:
  "open_suggest_edit b env =
     (True,
      snd (poll_panel env [0..<poll_attempts b])
        @ (if \<not> fst (poll_panel env [0..<poll_attempts b])
           then [Print ''Location panel may not have loaded yet, continuing anyway''] else [])
        @ settle b @ snd (discover b env)
        @ (if \<not> fst (discover b env) then passive_wait env else []))"
  by (simp add: open_suggest_edit_def split: prod.splits)

lemma probes_open_suggest_edit:
  "probes (snd (open_suggest_edit b env)) = probes (snd (poll_panel env [0..<poll_attempts b]))"
  by (simp add: open_suggest_edit_eq probes_append probes_settle probes_discover
      probes_passive_wait)

lemma poll_attempts_bound: "poll_attempts b = max 1 (nat (panel_wait_seconds b))"
  by (simp add: poll_attempts_def Let_def)

lemma poll_panel_exhausted:
  "(\<And>k. panel_probe env k \<noteq> Returns True) \<Longrightarrow>
   poll_panel env ks = (False, concat (map (\<lambda>k. [Probe k, Sleep 1]) ks))"
proof (induction ks)
  case Nil
  then show ?case by simp
next
  case (Cons k ks)
  from Cons.prems have "panel_probe env k \<noteq> Returns True" .
  with Cons show ?case
    by (auto split: outcome.splits bool.splits)
qed

lemma click_suggest_selectors_no_match:
  "(\<And>k. suggest_count env k = Returns 0) \<Longrightarrow>
   click_suggest_selectors b env i sels = (False, [])"
  by (induction sels arbitrary: i) simp_all

text \<open>
  Claim C7, as stated, fails: started with \<^verbatim>\<open>--panel-wait 0\<close> the bot still polls once
  for the info panel.
\<close>

theorem panel_poll_bound_counterexample:
  "panel_wait_seconds zero_wait_bot = 0
   \<and> probes (snd (open_suggest_edit zero_wait_bot dark_env)) = [0]"
  by (simp add: probes_open_suggest_edit poll_attempts_def zero_wait_bot_def dark_env_def)

text \<open>
  Claim C7, amended. \<^verbatim>\<open>open_suggest_edit\<close> polls for a visible info panel at most
  \<^verbatim>\<open>max(1, panel_wait_seconds)\<close> times (one attempt is made even for a wait of zero), with
  a pause of one second after every attempt that does not see the panel; when the poll
  runs out it prints a warning and goes on. When the ranked selectors, the panel-offset
  click, the keyboard navigation and the page-text scan all fail, the method ends by
  trying to save a screenshot and the page source (both are saved when these calls
  return), waiting 45 seconds, and it still returns \<^verbatim>\<open>True\<close>, as it does on every path.
\<close>

theorem open_suggest_edit_degrades:
  "length (probes (snd (open_suggest_edit b env))) \<le> max 1 (nat (panel_wait_seconds b))
   \<and> ((\<forall>k. panel_probe env k \<noteq> Returns True) \<longrightarrow>
        snd (poll_panel env [0..<poll_attempts b])
          = concat (map (\<lambda>k. [Probe k, Sleep 1]) [0..<poll_attempts b])
        \<and> Print ''Location panel may not have loaded yet, continuing anyway''
            \<in> set (snd (open_suggest_edit b env)))
   \<and> (\<not> fst (click_suggest_selectors b env 0 suggest_selectors)
        \<and> \<not> fst (click_panel_area b env)
        \<and> \<not> fst (keyboard_navigation b env)
        \<and> \<not> fst (click_by_text b env)
      \<longrightarrow> (\<exists>before. snd (open_suggest_edit b env)
                        = before @ save_debug env
                            @ [Print ''Please manually click Suggest an edit in the browser'',
                               Sleep 45]))
   \<and> (debug_screenshot_ok env \<and> debug_content_ok env \<and> debug_write_ok env
      \<longrightarrow> save_debug env = [Screenshot ''debug_maps.png'', WriteFile ''debug_html.html''])
   \<and> fst (open_suggest_edit b env) = True"
proof (intro conjI impI)
  have "length (probes (snd (poll_panel env [0..<poll_attempts b]))) \<le> length [0..<poll_attempts b]"
    by (rule probes_poll_panel)
  then show "length (probes (snd (open_suggest_edit b env))) \<le> max 1 (nat (panel_wait_seconds b))"
    by (simp add: probes_open_suggest_edit poll_attempts_bound)
next
  assume never: "\<forall>k. panel_probe env k \<noteq> Returns True"
  then have exhausted: "poll_panel env [0..<poll_attempts b]
                 = (False, concat (map (\<lambda>k. [Probe k, Sleep 1]) [0..<poll_attempts b]))"
    by (intro poll_panel_exhausted) simp
  then show "snd (poll_panel env [0..<poll_attempts b])
               = concat (map (\<lambda>k. [Probe k, Sleep 1]) [0..<poll_attempts b])"
    by simp
  from exhausted show "Print ''Location panel may not have loaded yet, continuing anyway''
            \<in> set (snd (open_suggest_edit b env))"
    by (simp add: open_suggest_edit_eq)
next
  assume "\<not> fst (click_suggest_selectors b env 0 suggest_selectors)
        \<and> \<not> fst (click_panel_area b env)
        \<and> \<not> fst (keyboard_navigation b env)
        \<and> \<not> fst (click_by_text b env)"
  then have "snd (open_suggest_edit b env)
      = (snd (poll_panel env [0..<poll_attempts b])
          @ (if \<not> fst (poll_panel env [0..<poll_attempts b])
             then [Print ''Location panel may not have loaded yet, continuing anyway''] else [])
          @ settle b
          @ snd (click_suggest_selectors b env 0 suggest_selectors)
          @ snd (click_panel_area b env)
          @ snd (keyboard_navigation b env)
          @ snd (click_by_text b env))
        @ save_debug env
        @ [Print ''Please manually click Suggest an edit in the browser'', Sleep 45]"
    by (simp add: open_suggest_edit_eq discover_eq Let_def passive_wait_def)
  then show "\<exists>before. snd (open_suggest_edit b env)
                        = before @ save_debug env
                            @ [Print ''Please manually click Suggest an edit in the browser'',
                               Sleep 45]"
    by blast
next
  assume "debug_screenshot_ok env \<and> debug_content_ok env \<and> debug_write_ok env"
  then show "save_debug env = [Screenshot ''debug_maps.png'', WriteFile ''debug_html.html'']"
    by (simp add: save_debug_def)
next
  show "fst (open_suggest_edit b env) = True"
    by (simp add: open_suggest_edit_eq)
qed

theorem open_suggest_edit_degrades_witness:
  "length (probes (snd (open_suggest_edit default_bot dark_env))) \<le> 3
   \<and> Print ''Location panel may not have loaded yet, continuing anyway''
       \<in> set (snd (open_suggest_edit default_bot dark_env))
   \<and> (\<exists>before. snd (open_suggest_edit default_bot dark_env)
                  = before @ [Screenshot ''debug_maps.png'', WriteFile ''debug_html.html'',
                              Print ''Please manually click Suggest an edit in the browser'',
                              Sleep 45])
   \<and> fst (open_suggest_edit default_bot dark_env) = True"
proof -
  have never: "\<forall>k. panel_probe dark_env k \<noteq> Returns True"
    by (simp add: dark_env_def)
  have m1: "\<not> fst (click_suggest_selectors default_bot dark_env 0 suggest_selectors)"
    by (simp add: click_suggest_selectors_no_match dark_env_def)
  have m2: "\<not> fst (click_panel_area default_bot dark_env)"
    by (simp add: click_panel_area_def dark_env_def)
  have m3: "\<not> fst (keyboard_navigation default_bot dark_env)"
    by (simp add: keyboard_navigation_def dark_env_def upt_conv_Cons)
  have m4: "\<not> fst (click_by_text default_bot dark_env)"
    by (simp add: click_by_text_def dark_env_def)
  have dbg: "debug_screenshot_ok dark_env \<and> debug_content_ok dark_env \<and> debug_write_ok dark_env"
    by (simp add: dark_env_def)
  have bound: "max 1 (nat (panel_wait_seconds default_bot)) = 3"
    by (simp add: default_bot_def)
  from never m1 m2 m3 m4 dbg bound open_suggest_edit_degrades [of default_bot dark_env]
  show ?thesis
    by auto
qed

subsection \<open>The mandatory input field\<close>

lemma poll_place_name_exhausted:
  "(\<And>k. k \<in> set ks \<Longrightarrow>
      \<not> truthy (fst (evaluate_in_all_frames (poll_page env k)
                       (find_place_name_input (place_name_selectors b)))))
   \<Longrightarrow> poll_place_name b env new_name ks = (None, replicate (length ks) (Sleep 1))"
  by (induction ks) (simp_all add: Let_def)

lemma fallback_any_input_nothing:
  "frame_evaluate (scan_page env) (main_frame (scan_page env)) scan_editable = Returns []
   \<Longrightarrow> fallback_any_input b env new_name
       = (Some False, if screenshot_ok env then [Screenshot ''debug_no_inputs.png''] else [])"
  by (simp add: fallback_any_input_def)

lemma submit_name_change_no_input:
  assumes menu: "fst (click_menu_entry b env)"
    and poll: "\<And>k. k \<in> set [0..<20] \<Longrightarrow>
                 \<not> truthy (fst (evaluate_in_all_frames (poll_page env k)
                                  (find_place_name_input (place_name_selectors b))))"
    and scan: "frame_evaluate (scan_page env) (main_frame (scan_page env)) scan_editable = Returns []"
  shows "submit_name_change b env new_name
           = (False, Sleep 2 # snd (click_menu_entry b env) @ replicate 20 (Sleep 1)
                       @ (if screenshot_ok env then [Screenshot ''debug_no_inputs.png''] else []))"
proof -
  obtain did where m: "click_menu_entry b env = (True, did)"
    using menu by (cases "click_menu_entry b env") auto
  have p: "poll_place_name b env new_name [0..<20] = (None, replicate 20 (Sleep 1))"
    using poll_place_name_exhausted [of "[0..<20]" env b new_name] poll by simp
  show ?thesis
    by (simp add: submit_name_change_def m p fallback_any_input_nothing [OF scan])
qed

lemma address_options_loop_none:
  "(\<And>k. address_option env k = Returns False) \<Longrightarrow> address_options_loop b env i sels = (False, [])"
  by (induction sels arbitrary: i) simp_all

lemma address_inputs_loop_none:
  "(\<And>k. address_input env k = Returns False) \<Longrightarrow> address_inputs_loop env a i sels = (False, [])"
  by (induction sels arbitrary: i) simp_all

lemma submit_address_change_returns_true: "fst (submit_address_change b env a) = True"
  by (simp add: submit_address_change_def split: prod.splits)

lemma submit_address_change_warns:
  "\<not> address_field_found b env a
   \<Longrightarrow> Print ''Could not find address input automatically'' \<in> set (snd (submit_address_change b env a))"
  by (auto simp: submit_address_change_def address_field_found_def split: prod.splits)

lemma blank_page_has_no_name_input:
  "evaluate_in_all_frames page_untitled (find_place_name_input (place_name_selectors default_bot))
     = (PNone, None)"
  by (simp add: evaluate_in_all_frames_def frame_evaluate_def page_untitled_def
      find_place_name_input_def default_bot_def blank_dom_def query_selector_def)

lemma blank_page_has_no_editable:
  "frame_evaluate page_untitled (main_frame page_untitled) scan_editable = Returns []"
  by (simp add: frame_evaluate_def page_untitled_def scan_editable_def blank_dom_def)

lemma menu_only_env_clicks_menu:
  "click_menu_entry default_bot menu_only_env
     = (True, [LocatorClick (menu_option_selectors ! 0) 0, Sleep (1 / 2), Sleep 2])"
  by (simp add: click_menu_entry_def menu_only_env_def still_env_def frame_evaluate_def
      page_untitled_def list_menu_items_def blank_dom_def click_by_coordinates_def Let_def
      menu_option_selectors_def settle_def default_bot_def)

lemma still_env_clicks_nothing: "click_menu_entry default_bot still_env = (False, [])"
  by (simp add: click_menu_entry_def still_env_def frame_evaluate_def page_untitled_def
      list_menu_items_def blank_dom_def click_by_coordinates_def Let_def
      menu_option_selectors_def)

text \<open>
  Claim C8 against the code. In a dialog where neither the address entry of the menu nor
  any address input is found (and no submit button either), \<^verbatim>\<open>submit_address_change\<close>
  prints its warnings and returns \<^verbatim>\<open>True\<close>, not a failure result, although its docstring
  promises \<^verbatim>\<open>False\<close> when the edit did not succeed and although the sibling method returns
  \<^verbatim>\<open>False\<close> in the same situation: \<^verbatim>\<open>submit_name_change\<close> in \<^verbatim>\<open>menu_only_env\<close>, where a menu
  entry is clicked and neither the poll nor the scan finds a field. The name method too
  reports success without a field when no menu entry could be clicked (\<^verbatim>\<open>still_env\<close>): it
  then never looks for the field.
\<close>

theorem address_not_found_returns_true:
  "\<not> address_field_found default_bot blind_address_env ''12 Main St''
   \<and> submit_address_change default_bot blind_address_env ''12 Main St''
       = (True, [Sleep 2, Print ''Could not find address input automatically'', Sleep 1,
                 Print ''Could not find submit button automatically'', Sleep 5, Sleep 2])
   \<and> fst (submit_name_change default_bot menu_only_env ''Coffee Shop East'') = False
   \<and> Screenshot ''debug_no_inputs.png''
       \<in> set (snd (submit_name_change default_bot menu_only_env ''Coffee Shop East''))
   \<and> submit_name_change default_bot still_env ''Coffee Shop East''
       = (True, [Sleep 2, Print ''Menu option not found or could not fill input'', Sleep 2])"
proof -
  have options: "address_options_loop default_bot blind_address_env 0 address_menu_selectors = (False, [])"
    by (rule address_options_loop_none) (simp add: blind_address_env_def)
  have inputs: "address_inputs_loop blind_address_env ''12 Main St'' 0 address_input_selectors = (False, [])"
    by (rule address_inputs_loop_none) (simp add: blind_address_env_def)
  have submit: "address_submit_loop default_bot blind_address_env 0 address_submit_selectors = (False, [])"
    by (simp add: address_submit_selectors_def blind_address_env_def)
  have name: "submit_name_change default_bot menu_only_env ''Coffee Shop East''
          = (False, Sleep 2 # snd (click_menu_entry default_bot menu_only_env)
                      @ replicate 20 (Sleep 1)
                      @ (if screenshot_ok menu_only_env
                         then [Screenshot ''debug_no_inputs.png''] else []))"
    by (rule submit_name_change_no_input)
       (simp_all add: menu_only_env_clicks_menu,
        simp_all add: menu_only_env_def still_env_def blank_page_has_no_name_input
          blank_page_has_no_editable)
  have shot: "screenshot_ok menu_only_env"
    by (simp add: menu_only_env_def still_env_def)
  have still: "submit_name_change default_bot still_env ''Coffee Shop East''
       = (True, [Sleep 2, Print ''Menu option not found or could not fill input'', Sleep 2])"
    by (simp add: submit_name_change_def still_env_clicks_nothing)
  have address: "submit_address_change default_bot blind_address_env ''12 Main St''
       = (True, [Sleep 2, Print ''Could not find address input automatically'', Sleep 1,
                 Print ''Could not find submit button automatically'', Sleep 5, Sleep 2])"
    by (simp add: submit_address_change_def options inputs submit)
  show ?thesis
    by (simp add: address_field_found_def options inputs address name shot still)
qed

subsection \<open>What the callers make of the result\<close>

text \<open>
  Claim C9 against the code: in the browser \<^verbatim>\<open>menu_only_env\<close> the name edit fails
  (\<^verbatim>\<open>submit_name_change\<close> returns \<^verbatim>\<open>False\<close>), yet \<^verbatim>\<open>suggest_general_edit\<close>, asked for that
  name edit alone, returns \<^verbatim>\<open>True\<close>: the value of the call is dropped.
\<close>

theorem suggest_general_edit_drops_failure:
  "fst (submit_name_change default_bot menu_only_env ''Coffee Shop East'') = False
   \<and> fst (suggest_general_edit default_bot menu_only_env blind_address_env
            [''name'' \<mapsto> ''Coffee Shop East'']) = True"
proof -
  have "submit_name_change default_bot menu_only_env ''Coffee Shop East''
          = (False, Sleep 2 # snd (click_menu_entry default_bot menu_only_env)
                      @ replicate 20 (Sleep 1)
                      @ (if screenshot_ok menu_only_env
                         then [Screenshot ''debug_no_inputs.png''] else []))"
    by (rule submit_name_change_no_input)
       (simp_all add: menu_only_env_clicks_menu,
        simp_all add: menu_only_env_def still_env_def blank_page_has_no_name_input
          blank_page_has_no_editable)
  then show ?thesis
    by (simp add: suggest_general_edit_def)
qed

subsection \<open>The fallback input without a submit button\<close>

lemma settle_has_no_print: "Print s \<notin> set (settle b)"
  by (simp add: settle_def)

lemma fallback_input_step_null_submit:
  assumes "frame_evaluate (fallback_submit_page env idx)
             (main_frame (fallback_submit_page env idx)) fallback_find_submit = Returns PNone"
  shows "fst (fallback_input_step b env new_name idx inp) = None"
    and "Print s \<notin> set (snd (fallback_input_step b env new_name idx inp))"
  using assms
  by (simp_all add: fallback_input_step_def Let_def settle_has_no_print)

text \<open>
  Claim C10. In the fallback branch, when the submit search returns null for an
  editable element, reading \<^verbatim>\<open>submit_button['x']\<close> raises; the handler of that element
  swallows the exception and the loop goes on with the next element. Nothing is returned
  from that iteration and "Submit button not found" is not printed in it.
\<close>

theorem fallback_null_submit_goes_on:
  "frame_evaluate (fallback_submit_page env idx)
     (main_frame (fallback_submit_page env idx)) fallback_find_submit = Returns PNone
   \<Longrightarrow> as_number (subscript PNone ''x'') = Raises
     \<and> fst (fallback_input_step b env new_name idx inp) = None
     \<and> Print ''Submit button not found'' \<notin> set (snd (fallback_input_step b env new_name idx inp))
     \<and> fallback_inputs_loop b env new_name idx (inp # rest)
         = after (snd (fallback_input_step b env new_name idx inp))
             (fallback_inputs_loop b env new_name (Suc idx) rest)"
proof -
  assume null: "frame_evaluate (fallback_submit_page env idx)
     (main_frame (fallback_submit_page env idx)) fallback_find_submit = Returns PNone"
  obtain r did where step: "fallback_input_step b env new_name idx inp = (r, did)"
    by (cases "fallback_input_step b env new_name idx inp")
  with fallback_input_step_null_submit(1) [OF null, where b = b and new_name = new_name and inp = inp]
  have r: "r = None"
    by simp
  from step r have "fallback_inputs_loop b env new_name idx (inp # rest)
         = after (snd (fallback_input_step b env new_name idx inp))
             (fallback_inputs_loop b env new_name (Suc idx) rest)"
    by simp
  with fallback_input_step_null_submit(1) [OF null, where b = b and new_name = new_name and inp = inp]
    fallback_input_step_null_submit(2)
      [OF null, where b = b and new_name = new_name and inp = inp
         and s = "''Submit button not found''"]
  show ?thesis by simp
qed

lemma blank_page_has_no_submit:
  "frame_evaluate page_untitled (main_frame page_untitled) fallback_find_submit = Returns PNone"
  by (simp add: frame_evaluate_def page_untitled_def fallback_find_submit_def
      fallback_submit_selectors_def blank_dom_def)

theorem fallback_null_submit_goes_on_witness:
  "fst (fallback_input_step default_bot two_inputs_env ''Coffee Shop East'' 0
          \<lparr>ed_x = 120, ed_y = 120, ed_value = [], ed_placeholder = [], ed_tag = ''INPUT''\<rparr>) = None
   \<and> Print ''Submit button not found''
       \<notin> set (snd (fallback_input_step default_bot two_inputs_env ''Coffee Shop East'' 0
                     \<lparr>ed_x = 120, ed_y = 120, ed_value = [], ed_placeholder = [], ed_tag = ''INPUT''\<rparr>))"
proof -
  have null: "frame_evaluate (fallback_submit_page two_inputs_env 0)
     (main_frame (fallback_submit_page two_inputs_env 0)) fallback_find_submit = Returns PNone"
    by (simp add: two_inputs_env_def menu_only_env_def still_env_def blank_page_has_no_submit)
  from fallback_null_submit_goes_on [OF null, of default_bot "''Coffee Shop East''"
      "\<lparr>ed_x = 120, ed_y = 120, ed_value = [], ed_placeholder = [], ed_tag = ''INPUT''\<rparr>" "[]"]
  show ?thesis by blast
qed

end
